theory Spec2Isabelle
  imports Main
begin

section \<open>The Bitbucket client: data model\<close>

text \<open>
  The client (class \<open>BitbucketClient\<close>) maps each method call to one or more HTTP
  requests issued through \<open>this.client\<close> (a \<open>got\<close> instance) and reshapes the decoded
  replies. The embedding keeps the requests that were issued as an explicit log and
  takes the remote API as a parameter, so that statements about "which requests are
  sent" and "what is returned" are statements about the value a method computes.

  Numbers of the wire format (\<open>page\<close>, \<open>pagelen\<close>, \<open>size\<close>, \<open>statusCode\<close>) are taken to be
  integers in the range where JavaScript arithmetic is exact and where a number renders
  in decimal notation; floating point is not modelled.
\<close>

subsection \<open>Requests\<close>

datatype http_method = GET | POST | PUT | DELETE

record link =
  link_name :: "string option"
  href :: string

text \<open>\<open>IDefaultReviewer = IAccount & IUser\<close>; also the shape of \<open>GET /user\<close>.\<close>

record default_reviewer =
  links :: "(string \<times> link) list"
  created_on :: "string option"
  display_name :: string
  uuid :: string
  account_id :: string
  account_status :: "string option"
  has_2fa_enabled :: "bool option"
  nickname :: string
  is_staff :: "bool option"

text \<open>
  The element type produced by \<open>getEffectiveDefaultReviewers\<close>:
  \<open>IDefaultReviewer & { reviewer_type }\<close>, the result of the object spread
  \<open>{ ...user, reviewer_type }\<close>.
\<close>

record typed_reviewer = default_reviewer +
  reviewer_type :: string

text \<open>
  The JSON bodies the client writes. \<open>source: { branch: { name: s } }\<close> is kept as the
  branch name \<open>s\<close>; an \<open>undefined\<close> property (which \<open>JSON.stringify\<close> leaves out of the
  serialised object) is \<open>None\<close>.
\<close>

datatype json_body =
    VariableJson
      (json_type : string)
      (json_uuid : "string option")
      (json_key : string)
      (json_value : string)
      (json_secured : bool)
  | PullRequestJson
      (json_title : string)
      (json_source : string)
      (json_destination : "string option")
      (json_reviewers : "typed_reviewer list")
      (json_close_source_branch : bool)

text \<open>A \<open>FormData\<close> payload is the list of appended fields, in the order of the appends.\<close>

datatype payload =
    NoBody
  | Json json_body
  | Form "(string \<times> string) list"

text \<open>
  A request as handed to \<open>got\<close>: the HTTP method, the URL relative to the
  \<open>prefixUrl\<close> (query string included) and the payload.
\<close>

record request =
  "method" :: http_method
  url :: string
  payload :: payload

subsection \<open>Replies\<close>

text \<open>
  A \<open>got\<close> response, for the calls that read it raw (no \<open>.json()\<close>). The headers object
  is an association list from lower-case header names to values, read with \<open>map_of\<close>.
\<close>

record 'b response =
  statusCode :: int
  headers :: "(string \<times> string) list"
  body :: 'b

text \<open>
  A rejected request: \<open>got\<close>'s \<open>RequestError\<close>. It carries the response when the server
  answered (a non-2xx status, for one) and none when the transport itself failed.
\<close>

record request_error =
  error_message :: string
  error_response :: "string response option"

text \<open>
  \<open>PaginatedResponse<Values>\<close> of \<open>types/api.ts\<close>; its field \<open>size\<close> is \<open>total_size\<close> here.
\<close>

record 'a paginated =
  "values" :: "'a list"
  pagelen :: int
  page :: int
  total_size :: int
  "next" :: "string option"
  previous :: "string option"

text \<open>
  \<open>IPipelineVariable\<close>; its field \<open>value\<close> is \<open>val\<close> and its field \<open>uuid\<close> is \<open>var_uuid\<close> here
  (\<open>uuid\<close> is the field of the accounts).
\<close>

record pipeline_variable =
  key :: string
  val :: string
  secured :: bool
  var_uuid :: string

text \<open>\<open>IDefaultReviewerAndType\<close>: \<open>type\<close>, \<open>reviewer_type\<close> and \<open>user\<close>.\<close>

datatype default_reviewer_and_type =
  DefaultReviewerAndType (entry_type : string) (entry_reviewer_type : string) (entry_user : default_reviewer)

subsection \<open>The remote API\<close>

text \<open>
  The remote side is deterministic in the requests it has received: an endpoint answers
  a request, given the requests issued before it, either with a rejection or with the
  decoded reply. A promise that rejects with \<open>e\<close> is \<open>Inl e\<close>.
\<close>

type_synonym 'a endpoint = "request list \<Rightarrow> request \<Rightarrow> request_error + 'a"

text \<open>
  One field per entry of the \<open>Responses\<close> interface that the modelled methods decode,
  and one per raw call. The item types the client only passes through
  (\<open>IWorkspace\<close>, \<open>IRepository\<close>, \<open>ICodeSearchResult\<close>, \<open>IPullRequest\<close>, the parsed body of
  the \<open>DELETE\<close> reply) are type parameters.
\<close>

record ('ws, 'repo, 'search, 'pr, 'del) api =
  get_user :: "default_reviewer endpoint"
  get_workspace :: "'ws endpoint"
  get_repositories :: "'repo paginated endpoint"
  get_effective_default_reviewers :: "default_reviewer_and_type paginated endpoint"
  get_variables :: "pipeline_variable paginated endpoint"
  post_variables :: "pipeline_variable endpoint"
  put_variables :: "pipeline_variable endpoint"
  delete_variables :: "'del response endpoint"
  post_pullrequests :: "'pr endpoint"
  get_src :: "string response endpoint"
  post_src :: "string response endpoint"
  get_search_code :: "'search paginated endpoint"

text \<open>Issuing a request: the reply of the endpoint, and the request appended to the log.\<close>

definition call :: "'a endpoint \<Rightarrow> request \<Rightarrow> request list \<Rightarrow> (request_error + 'a) \<times> request list" where
  "call endpoint req log = (endpoint log req, log @ [req])"

section \<open>JavaScript helpers\<close>

text \<open>Truthiness of a \<open>string | undefined\<close>.\<close>

fun truthy_string :: "string option \<Rightarrow> bool" where
  "truthy_string None = False"
| "truthy_string (Some s) = (s \<noteq> [])"

text \<open>A number in a template literal: decimal digits, with a sign when negative.\<close>

definition digit_char :: "nat \<Rightarrow> char" where
  "digit_char d = ''0123456789'' ! d"

fun show_nat :: "nat \<Rightarrow> string" where
  "show_nat n = (if n < 10 then [digit_char n] else show_nat (n div 10) @ [digit_char (n mod 10)])"

declare show_nat.simps [simp del]

definition show_number :: "int \<Rightarrow> string" where
  "show_number n = (if n < 0 then CHR ''-'' # show_nat (nat (- n)) else show_nat (nat n))"

text \<open>\<open>if (x) form.append(name, x)\<close>, for a \<open>string | undefined\<close>.\<close>

fun optional_field :: "string \<Rightarrow> string option \<Rightarrow> (string \<times> string) list" where
  "optional_field name None = []"
| "optional_field name (Some v) = (if v \<noteq> [] then [(name, v)] else [])"

text \<open>\<open>s.split(sep)\<close> for a one-character separator: never the empty array.\<close>

fun split_on :: "char \<Rightarrow> string \<Rightarrow> string list" where
  "split_on sep [] = [[]]"
| "split_on sep (c # cs) =
     (if c = sep then [] # split_on sep cs
      else (case split_on sep cs of
              [] \<Rightarrow> [[c]]
            | w # ws \<Rightarrow> (c # w) # ws))"

text \<open>\<open>xs.at(-1)\<close>: the last element, \<open>undefined\<close> on the empty array.\<close>

fun at_last :: "'a list \<Rightarrow> 'a option" where
  "at_last [] = None"
| "at_last (x # xs) = Some (last (x # xs))"

text \<open>\<open>xs.join(sep)\<close>.\<close>

fun join :: "string \<Rightarrow> string list \<Rightarrow> string" where
  "join sep [] = []"
| "join sep [x] = x"
| "join sep (x # y # ys) = x @ sep @ join sep (y # ys)"

text \<open>
  \<open>URLSearchParams.toString()\<close>: the \<open>application/x-www-form-urlencoded\<close> serialiser of
  the URL standard, on the bytes of the UTF-8 encoding. A space becomes \<open>+\<close>, the
  characters of \<open>form_safe\<close> stay, every other byte is percent-encoded.
\<close>

definition form_safe :: string where
  "form_safe = ''*-._0123456789ABCDEFGHIJKLMNOPQRSTUVWXYZabcdefghijklmnopqrstuvwxyz''"

definition hex_digit :: "nat \<Rightarrow> char" where
  "hex_digit d = ''0123456789ABCDEF'' ! d"

definition form_encode_byte :: "char \<Rightarrow> string" where
  "form_encode_byte c =
     (if c = CHR '' '' then ''+''
      else if c \<in> set form_safe then [c]
      else [CHR ''%'', hex_digit (of_char c div 16), hex_digit (of_char c mod 16)])"

definition form_encode :: "string \<Rightarrow> string" where
  "form_encode s = concat (map form_encode_byte s)"

definition URLSearchParams_toString :: "(string \<times> string) list \<Rightarrow> string" where
  "URLSearchParams_toString params =
     join ''&'' (map (\<lambda>(name, v). form_encode name @ ''='' @ form_encode v) params)"

text \<open>
  \<open>posix.resolve('/', p)\<close> of Node's \<open>path\<close> module: the segments of \<open>p\<close> with empty and
  \<open>.\<close> segments dropped and each \<open>..\<close> removing the segment before it (none at the root),
  joined below the root.
\<close>

fun resolve_segment :: "string list \<Rightarrow> string \<Rightarrow> string list" where
  "resolve_segment acc seg =
     (if seg = [] \<or> seg = ''.'' then acc
      else if seg = ''..'' then butlast acc
      else acc @ [seg])"

definition posix_resolve_root :: "string \<Rightarrow> string" where
  "posix_resolve_root p = CHR ''/'' # join ''/'' (foldl resolve_segment [] (split_on CHR ''/'' p))"

section \<open>User and workspaces\<close>

definition getCurrentUser ::
  "('ws, 'repo, 'search, 'pr, 'del) api \<Rightarrow> request list
     \<Rightarrow> (request_error + default_reviewer) \<times> request list"
where
  "getCurrentUser client log =
     call (get_user client) \<lparr> method = GET, url = ''user'', payload = NoBody \<rparr> log"

text \<open>The template literal of \<open>getWorkspace\<close> is \<^verbatim>\<open>`workspaces/${workspace}}`\<close>.\<close>

definition getWorkspace ::
  "('ws, 'repo, 'search, 'pr, 'del) api \<Rightarrow> string \<Rightarrow> request list
     \<Rightarrow> (request_error + 'ws) \<times> request list"
where
  "getWorkspace client workspace log =
     call (get_workspace client)
       \<lparr> method = GET, url = ''workspaces/'' @ workspace @ ''}'', payload = NoBody \<rparr> log"

section \<open>Repositories\<close>

text \<open>
  \<^verbatim>\<open>repositories/${workspace}?q=project.key="${projectKey}"${requestPage ? `&page=${requestPage}` : ''}\<close>
\<close>

definition repositories_request :: "string \<Rightarrow> string \<Rightarrow> int option \<Rightarrow> request" where
  "repositories_request workspace projectKey requestPage =
     \<lparr> method = GET,
       url = ''repositories/'' @ workspace @ ''?q=project.key=\"'' @ projectKey @ ''\"'' @
             (case requestPage of
                None \<Rightarrow> []
              | Some n \<Rightarrow> if n \<noteq> 0 then ''&page='' @ show_number n else []),
       payload = NoBody \<rparr>"

text \<open>
  The method awaits the page, and when \<open>next\<close> is truthy awaits itself on
  \<open>currentPage + 1\<close> and spreads both arrays into the result. A rejection of any page
  rejects the whole call. A server that answers every page with a \<open>next\<close> link keeps the
  method from returning: that is the value \<open>None\<close>.
\<close>

partial_function (option) getRepositoriesByProject ::
  "('ws, 'repo, 'search, 'pr, 'del) api \<Rightarrow> string \<Rightarrow> string \<Rightarrow> int option \<Rightarrow> request list
     \<Rightarrow> ((request_error + 'repo list) \<times> request list) option"
where
  "getRepositoriesByProject client workspace projectKey requestPage log =
     (case call (get_repositories client) (repositories_request workspace projectKey requestPage) log of
        (Inl err, log') \<Rightarrow> Some (Inl err, log')
      | (Inr res, log') \<Rightarrow>
          if truthy_string (next res)
          then Option.bind
                 (getRepositoriesByProject client workspace projectKey (Some (page res + 1)) log')
                 (\<lambda>r. case r of
                         (Inl err, log'') \<Rightarrow> Some (Inl err, log'')
                       | (Inr rest, log'') \<Rightarrow> Some (Inr (values res @ rest), log''))
          else Some (Inr (values res), log'))"

declare getRepositoriesByProject.simps [code]

definition getEffectiveDefaultReviewers ::
  "('ws, 'repo, 'search, 'pr, 'del) api \<Rightarrow> string \<Rightarrow> string \<Rightarrow> request list
     \<Rightarrow> (request_error + typed_reviewer list) \<times> request list"
where
  "getEffectiveDefaultReviewers client workspace repoSlug log =
     (case call (get_effective_default_reviewers client)
             \<lparr> method = GET,
               url = ''repositories/'' @ workspace @ ''/'' @ repoSlug @ ''/effective-default-reviewers'',
               payload = NoBody \<rparr> log of
        (Inl err, log') \<Rightarrow> (Inl err, log')
      | (Inr res, log') \<Rightarrow>
          (Inr (map (\<lambda>entry. default_reviewer.extend (entry_user entry)
                                (typed_reviewer.fields (entry_reviewer_type entry)))
                  (values res)),
           log'))"

section \<open>Pipeline variables\<close>

definition variables_url :: "string \<Rightarrow> string \<Rightarrow> string" where
  "variables_url workspace repoSlug =
     ''repositories/'' @ workspace @ ''/'' @ repoSlug @ ''/pipelines_config/variables''"

definition getRepoVariables ::
  "('ws, 'repo, 'search, 'pr, 'del) api \<Rightarrow> string \<Rightarrow> string \<Rightarrow> request list
     \<Rightarrow> (request_error + pipeline_variable list) \<times> request list"
where
  "getRepoVariables client workspace repoSlug log =
     (case call (get_variables client)
             \<lparr> method = GET, url = variables_url workspace repoSlug, payload = NoBody \<rparr> log of
        (Inl err, log') \<Rightarrow> (Inl err, log')
      | (Inr res, log') \<Rightarrow> (Inr (values res), log'))"

definition createRepoVariable ::
  "('ws, 'repo, 'search, 'pr, 'del) api \<Rightarrow> string \<Rightarrow> string \<Rightarrow> string \<Rightarrow> string \<Rightarrow> request list
     \<Rightarrow> (request_error + pipeline_variable) \<times> request list"
where
  "createRepoVariable client workspace repoSlug varName varValue log =
     call (post_variables client)
       \<lparr> method = POST,
         url = variables_url workspace repoSlug,
         payload = Json (VariableJson ''pipeline_variable'' None varName varValue True) \<rparr> log"

definition updateRepoVariable ::
  "('ws, 'repo, 'search, 'pr, 'del) api \<Rightarrow> string \<Rightarrow> string \<Rightarrow> string \<Rightarrow> string \<Rightarrow> string
     \<Rightarrow> request list \<Rightarrow> (request_error + pipeline_variable) \<times> request list"
where
  "updateRepoVariable client workspace repoSlug varUuid varName varValue log =
     call (put_variables client)
       \<lparr> method = PUT,
         url = variables_url workspace repoSlug @ ''/'' @ varUuid,
         payload = Json (VariableJson ''pipeline_variable'' (Some varUuid) varName varValue True) \<rparr> log"

definition setRepoVariable ::
  "('ws, 'repo, 'search, 'pr, 'del) api \<Rightarrow> string \<Rightarrow> string \<Rightarrow> string \<Rightarrow> string \<Rightarrow> request list
     \<Rightarrow> (request_error + pipeline_variable) \<times> request list"
where
  "setRepoVariable client workspace repoSlug varName varValue log =
     (case getRepoVariables client workspace repoSlug log of
        (Inl err, log') \<Rightarrow> (Inl err, log')
      | (Inr repoVars, log') \<Rightarrow>
          (case find (\<lambda>v. key v = varName) repoVars of
             None \<Rightarrow> createRepoVariable client workspace repoSlug varName varValue log'
           | Some existingVariable \<Rightarrow>
               updateRepoVariable client workspace repoSlug (var_uuid existingVariable)
                 varName varValue log'))"

text \<open>The result \<open>null\<close> is \<open>None\<close>; otherwise the method resolves to the \<open>DELETE\<close> reply.\<close>

definition deleteRepoVariable ::
  "('ws, 'repo, 'search, 'pr, 'del) api \<Rightarrow> string \<Rightarrow> string \<Rightarrow> string \<Rightarrow> request list
     \<Rightarrow> (request_error + 'del response option) \<times> request list"
where
  "deleteRepoVariable client workspace repoSlug varName log =
     (case getRepoVariables client workspace repoSlug log of
        (Inl err, log') \<Rightarrow> (Inl err, log')
      | (Inr repoVars, log') \<Rightarrow>
          (case find (\<lambda>v. key v = varName) repoVars of
             None \<Rightarrow> (Inr None, log')
           | Some variableProps \<Rightarrow>
               (case call (delete_variables client)
                       \<lparr> method = DELETE,
                         url = variables_url workspace repoSlug @ ''/'' @ var_uuid variableProps,
                         payload = NoBody \<rparr> log' of
                  (Inl err, log'') \<Rightarrow> (Inl err, log'')
                | (Inr res, log'') \<Rightarrow> (Inr (Some res), log''))))"

section \<open>Pull requests\<close>

definition createPullRequest ::
  "('ws, 'repo, 'search, 'pr, 'del) api \<Rightarrow> string \<Rightarrow> string \<Rightarrow> string \<Rightarrow> string \<Rightarrow> string option
     \<Rightarrow> request list \<Rightarrow> (request_error + 'pr) \<times> request list"
where
  "createPullRequest client workspace repoSlug title sourceBranch destinationBranch log =
     (case getCurrentUser client log of
        (Inl err, log') \<Rightarrow> (Inl err, log')
      | (Inr currentUser, log') \<Rightarrow>
          (case getEffectiveDefaultReviewers client workspace repoSlug log' of
             (Inl err, log'') \<Rightarrow> (Inl err, log'')
           | (Inr reviewers, log'') \<Rightarrow>
               (let defaultReviewers = filter (\<lambda>reviewer. uuid currentUser \<noteq> uuid reviewer) reviewers;
                    destination = (if truthy_string destinationBranch then destinationBranch else None)
                in call (post_pullrequests client)
                     \<lparr> method = POST,
                       url = ''repositories/'' @ workspace @ ''/'' @ repoSlug @ ''/pullrequests'',
                       payload = Json (PullRequestJson title sourceBranch destination
                                         defaultReviewers True) \<rparr> log'')))"

section \<open>Files\<close>

text \<open>
  The request is made with \<open>responseType: 'text'\<close>; the handler of the rejection turns a
  failure whose response has status 404 into \<open>null\<close> and throws every other one again.
\<close>

definition getFile_request :: "string \<Rightarrow> string \<Rightarrow> string \<Rightarrow> string \<Rightarrow> request" where
  "getFile_request workspace repoSlug commitOrRef filePath =
     (let absolutePath = posix_resolve_root filePath
      in \<lparr> method = GET,
           url = ''repositories/'' @ workspace @ ''/'' @ repoSlug @ ''/src/'' @ commitOrRef @ absolutePath,
           payload = NoBody \<rparr>)"

definition getFile ::
  "('ws, 'repo, 'search, 'pr, 'del) api \<Rightarrow> string \<Rightarrow> string \<Rightarrow> string \<Rightarrow> string \<Rightarrow> request list
     \<Rightarrow> (request_error + string option) \<times> request list"
where
  "getFile client workspace repoSlug commitOrRef filePath log =
     (case call (get_src client) (getFile_request workspace repoSlug commitOrRef filePath) log of
        (Inr res, log') \<Rightarrow> (Inr (Some (body res)), log')
      | (Inl err, log') \<Rightarrow>
          (case error_response err of
             None \<Rightarrow> (Inl err, log')
           | Some r \<Rightarrow> if statusCode r = 404 then (Inr None, log') else (Inl err, log')))"

text \<open>\<^verbatim>\<open>res.headers?.location?.split('/')?.at(-1) ?? '<unknown>'\<close>\<close>

definition commitHash :: "string response \<Rightarrow> string" where
  "commitHash res =
     (case map_of (headers res) ''location'' of
        None \<Rightarrow> ''<unknown>''
      | Some location \<Rightarrow>
          (case at_last (split_on CHR ''/'' location) of
             None \<Rightarrow> ''<unknown>''
           | Some h \<Rightarrow> h))"

text \<open>
  A default parameter value applies when the argument is \<open>undefined\<close>. The form holds
  the file first, then the fields whose value is truthy.
\<close>

definition commitFile_request ::
  "string \<Rightarrow> string \<Rightarrow> string \<Rightarrow> string \<Rightarrow> string option \<Rightarrow> string option \<Rightarrow> string option
     \<Rightarrow> request"
where
  "commitFile_request workspace repoSlug filePath contents message_arg author branch =
     (let message = (case message_arg of None \<Rightarrow> ''Posted a file via API'' | Some m \<Rightarrow> m);
          form = [(filePath, contents)]
                 @ optional_field ''message'' (Some message)
                 @ optional_field ''author'' author
                 @ optional_field ''branch'' branch
      in \<lparr> method = POST,
           url = ''repositories/'' @ workspace @ ''/'' @ repoSlug @ ''/src'',
           payload = Form form \<rparr>)"

definition commitFile ::
  "('ws, 'repo, 'search, 'pr, 'del) api \<Rightarrow> string \<Rightarrow> string \<Rightarrow> string \<Rightarrow> string
     \<Rightarrow> string option \<Rightarrow> string option \<Rightarrow> string option
     \<Rightarrow> request list \<Rightarrow> (request_error + string) \<times> request list"
where
  "commitFile client workspace repoSlug filePath contents message_arg author branch log =
     (case call (post_src client)
             (commitFile_request workspace repoSlug filePath contents message_arg author branch) log of
        (Inl err, log') \<Rightarrow> (Inl err, log')
      | (Inr res, log') \<Rightarrow> (Inr (commitHash res), log'))"

definition removeFile_request ::
  "string \<Rightarrow> string \<Rightarrow> string \<Rightarrow> string option \<Rightarrow> string option \<Rightarrow> string option \<Rightarrow> request"
where
  "removeFile_request workspace repoSlug filePath message_arg author branch =
     (let message = (case message_arg of None \<Rightarrow> ''Removed a file via API'' | Some m \<Rightarrow> m);
          form = [(''files'', filePath)]
                 @ optional_field ''message'' (Some message)
                 @ optional_field ''author'' author
                 @ optional_field ''branch'' branch
      in \<lparr> method = POST,
           url = ''repositories/'' @ workspace @ ''/'' @ repoSlug @ ''/src'',
           payload = Form form \<rparr>)"

definition removeFile ::
  "('ws, 'repo, 'search, 'pr, 'del) api \<Rightarrow> string \<Rightarrow> string \<Rightarrow> string
     \<Rightarrow> string option \<Rightarrow> string option \<Rightarrow> string option
     \<Rightarrow> request list \<Rightarrow> (request_error + string) \<times> request list"
where
  "removeFile client workspace repoSlug filePath message_arg author branch log =
     (case call (post_src client)
             (removeFile_request workspace repoSlug filePath message_arg author branch) log of
        (Inl err, log') \<Rightarrow> (Inl err, log')
      | (Inr res, log') \<Rightarrow> (Inr (commitHash res), log'))"

section \<open>Code search\<close>

definition code_search_request :: "string \<Rightarrow> string \<Rightarrow> int option \<Rightarrow> request" where
  "code_search_request workspace query requestPage =
     (let queryparams =
            [(''search_query'', query), (''fields'', ''+values.file.commit.repository'')]
            @ (case requestPage of
                 None \<Rightarrow> []
               | Some n \<Rightarrow> if n \<noteq> 0 then [(''page'', show_number n)] else [])
      in \<lparr> method = GET,
           url = ''workspaces/'' @ workspace @ ''/search/code?'' @ URLSearchParams_toString queryparams,
           payload = NoBody \<rparr>)"

partial_function (option) codeSearch ::
  "('ws, 'repo, 'search, 'pr, 'del) api \<Rightarrow> string \<Rightarrow> string \<Rightarrow> int option \<Rightarrow> request list
     \<Rightarrow> ((request_error + 'search list) \<times> request list) option"
where
  "codeSearch client workspace query requestPage log =
     (case call (get_search_code client) (code_search_request workspace query requestPage) log of
        (Inl err, log') \<Rightarrow> Some (Inl err, log')
      | (Inr res, log') \<Rightarrow>
          if truthy_string (next res)
          then Option.bind
                 (codeSearch client workspace query (Some (page res + 1)) log')
                 (\<lambda>r. case r of
                         (Inl err, log'') \<Rightarrow> Some (Inl err, log'')
                       | (Inr rest, log'') \<Rightarrow> Some (Inr (values res @ rest), log''))
          else Some (Inr (values res), log'))"

declare codeSearch.simps [code]

section \<open>Vocabulary of the properties\<close>

text \<open>\<open>this.client(u)\<close> with no options: a \<open>GET\<close> of \<open>u\<close> without payload.\<close>

definition get_request :: "string \<Rightarrow> request" where
  "get_request u = \<lparr> method = GET, url = u, payload = NoBody \<rparr>"

text \<open>The requests that a call added to the log \<open>log\<close> it started from.\<close>

definition issued :: "request list \<Rightarrow> 'r \<times> request list \<Rightarrow> request list" where
  "issued log result = drop (length log) (snd result)"

definition count_method :: "http_method \<Rightarrow> request list \<Rightarrow> nat" where
  "count_method m reqs = length (filter (\<lambda>req. method req = m) reqs)"

text \<open>
  A mocked endpoint that plays a fixed sequence of replies: the request that arrives
  after \<open>n\<close> earlier ones gets the reply number \<open>n\<close>, whatever it asks for.
\<close>

definition replay :: "(nat \<Rightarrow> request_error + 'a) \<Rightarrow> 'a endpoint" where
  "replay replies log req = replies (length log)"

text \<open>
  The URLs that the pagination properties expect for a sequence of pages: the first
  request goes to \<open>first_url\<close> with no page parameter, and each page but the last is
  followed by a request with \<open>page\<close> set to that page's \<open>page\<close> field plus one.
\<close>

definition page_urls :: "string \<Rightarrow> 'a paginated list \<Rightarrow> string list" where
  "page_urls first_url pages =
     first_url # map (\<lambda>res. first_url @ ''&page='' @ show_number (page res + 1)) (butlast pages)"

text \<open>
  The replies from position \<open>start\<close> on are the pages \<open>pages\<close>, in this order: every page
  but the last carries a \<open>next\<close> link and a \<open>page\<close> field whose successor is not zero, the
  last page carries no \<open>next\<close> link.
\<close>

definition page_sequence :: "(nat \<Rightarrow> request_error + 'a paginated) \<Rightarrow> nat \<Rightarrow> 'a paginated list \<Rightarrow> bool" where
  "page_sequence replies start pages \<longleftrightarrow>
     pages \<noteq> []
     \<and> (\<forall>i<length pages. replies (start + i) = Inr (pages ! i))
     \<and> (\<forall>res\<in>set (butlast pages). truthy_string (next res) \<and> page res + 1 \<noteq> 0)
     \<and> \<not> truthy_string (next (last pages))"

text \<open>
  \<open>Number.isSafeInteger\<close>: the integers that JavaScript numbers hold exactly and on which
  adding one is exact. The pages of a sequence are safe when the \<open>page\<close> field of every
  page but the last is.
\<close>

definition safe_integer :: "int \<Rightarrow> bool" where
  "safe_integer n \<longleftrightarrow> - (2 ^ 53) < n \<and> n < 2 ^ 53"

definition safe_pages :: "'a paginated list \<Rightarrow> bool" where
  "safe_pages pages \<longleftrightarrow> (\<forall>res\<in>set (butlast pages). safe_integer (page res))"

section \<open>Example servers\<close>

definition network_error :: request_error where
  "network_error =
     \<lparr> error_message = ''getaddrinfo ENOTFOUND api.bitbucket.org'', error_response = None \<rparr>"

definition http_error :: "int \<Rightarrow> request_error" where
  "http_error status =
     \<lparr> error_message = ''Response code '' @ show_number status,
       error_response = Some \<lparr> statusCode = status, headers = [], body = [] \<rparr> \<rparr>"

definition offline :: "'a endpoint" where
  "offline log req = Inl network_error"

definition offline_api :: "(unit, string, string, unit, unit) api" where
  "offline_api =
     \<lparr> get_user = offline, get_workspace = offline, get_repositories = offline,
       get_effective_default_reviewers = offline, get_variables = offline,
       post_variables = offline, put_variables = offline, delete_variables = offline,
       post_pullrequests = offline, get_src = offline, post_src = offline,
       get_search_code = offline \<rparr>"

text \<open>A script of replies: the listed pages, then network failures.\<close>

definition script :: "'a list \<Rightarrow> nat \<Rightarrow> request_error + 'a" where
  "script pages n = (if n < length pages then Inr (pages ! n) else Inl network_error)"

definition three_pages :: "string paginated list" where
  "three_pages =
     [ \<lparr> values = [''api'', ''web''], pagelen = 2, page = 1, total_size = 5,
         next = Some ''https://api.bitbucket.org/2.0/repositories/acme?page=2'', previous = None \<rparr>,
       \<lparr> values = [''docs'', ''infra''], pagelen = 2, page = 2, total_size = 5,
         next = Some ''https://api.bitbucket.org/2.0/repositories/acme?page=3'',
         previous = Some ''https://api.bitbucket.org/2.0/repositories/acme?page=1'' \<rparr>,
       \<lparr> values = [''tools''], pagelen = 2, page = 3, total_size = 5,
         next = None,
         previous = Some ''https://api.bitbucket.org/2.0/repositories/acme?page=2'' \<rparr> ]"

definition paged_api :: "(unit, string, string, unit, unit) api" where
  "paged_api = offline_api
     \<lparr> get_repositories := replay (script three_pages),
       get_search_code := replay (script three_pages) \<rparr>"

text \<open>Two pages, the first of which reports the page number \<open>-1\<close>.\<close>

definition minus_pages :: "string paginated list" where
  "minus_pages =
     [ \<lparr> values = [''api''], pagelen = 1, page = - 1, total_size = 2,
         next = Some ''https://api.bitbucket.org/2.0/repositories/acme?page=0'', previous = None \<rparr>,
       \<lparr> values = [''web''], pagelen = 1, page = 0, total_size = 2,
         next = None, previous = None \<rparr> ]"

definition minus_api :: "(unit, string, string, unit, unit) api" where
  "minus_api = offline_api
     \<lparr> get_repositories := replay (script minus_pages),
       get_search_code := replay (script minus_pages) \<rparr>"

definition located_response :: "string response" where
  "located_response =
     \<lparr> statusCode = 201,
       headers = [(''location'', ''https://api.bitbucket.org/2.0/repositories/acme/site/commit/abc123'')],
       body = [] \<rparr>"

definition bare_response :: "string response" where
  "bare_response = \<lparr> statusCode = 201, headers = [], body = [] \<rparr>"

definition files_api :: "(unit, string, string, unit, unit) api" where
  "files_api = offline_api
     \<lparr> get_src := (\<lambda>log req.
          if url req = ''repositories/acme/site/src/main/README.md''
          then Inr \<lparr> statusCode = 200, headers = [], body = ''# site'' \<rparr>
          else if url req = ''repositories/acme/site/src/main/private.key''
          then Inl (http_error 403)
          else if url req = ''repositories/acme/site/src/main/gone.txt''
          then Inl (http_error 404)
          else Inl network_error),
       post_src := (\<lambda>log req.
          if payload req = Form [(''files'', ''old.txt''), (''message'', ''Removed a file via API'')]
             \<or> payload req = Form [(''old.txt'', []), (''message'', ''Posted a file via API'')]
          then Inr bare_response
          else Inr located_response) \<rparr>"

definition stored_variables :: "pipeline_variable list" where
  "stored_variables =
     [ \<lparr> key = ''AWS_KEY'', val = '''', secured = True, var_uuid = ''{11}'' \<rparr>,
       \<lparr> key = ''REGION'', val = ''eu-west-1'', secured = False, var_uuid = ''{22}'' \<rparr> ]"

definition variables_api :: "(unit, string, string, unit, unit) api" where
  "variables_api = offline_api
     \<lparr> get_variables := (\<lambda>log req.
          Inr \<lparr> values = stored_variables, pagelen = 10, page = 1, total_size = 2,
                next = None, previous = None \<rparr>),
       post_variables := (\<lambda>log req.
          Inr \<lparr> key = ''TOKEN'', val = '''', secured = True, var_uuid = ''{33}'' \<rparr>),
       put_variables := (\<lambda>log req.
          Inr \<lparr> key = ''REGION'', val = ''us-east-1'', secured = True, var_uuid = ''{22}'' \<rparr>),
       delete_variables := (\<lambda>log req.
          Inr \<lparr> statusCode = 204, headers = [], body = () \<rparr>) \<rparr>"

definition account :: "string \<Rightarrow> string \<Rightarrow> default_reviewer" where
  "account uid name =
     \<lparr> links = [], created_on = None, display_name = name, uuid = uid, account_id = uid,
       account_status = Some ''active'', has_2fa_enabled = None, nickname = name,
       is_staff = None \<rparr>"

definition reviewer_entry :: "string \<Rightarrow> string \<Rightarrow> string \<Rightarrow> default_reviewer_and_type" where
  "reviewer_entry uid name kind = DefaultReviewerAndType ''default_reviewer'' kind (account uid name)"

definition typed :: "string \<Rightarrow> string \<Rightarrow> string \<Rightarrow> typed_reviewer" where
  "typed uid name kind =
     \<lparr> links = [], created_on = None, display_name = name, uuid = uid, account_id = uid,
       account_status = Some ''active'', has_2fa_enabled = None, nickname = name,
       is_staff = None, reviewer_type = kind \<rparr>"

text \<open>One page of effective default reviewers: A, B and the current user.\<close>

definition pullrequest_api :: "(unit, string, string, unit, unit) api" where
  "pullrequest_api = offline_api
     \<lparr> get_user := (\<lambda>log req. Inr (account ''{c}'' ''Carol'')),
       get_effective_default_reviewers := (\<lambda>log req.
          Inr \<lparr> values = [reviewer_entry ''{a}'' ''Alice'' ''repository'',
                          reviewer_entry ''{b}'' ''Bob'' ''project'',
                          reviewer_entry ''{c}'' ''Carol'' ''project''],
                pagelen = 10, page = 1, total_size = 3, next = None, previous = None \<rparr>),
       post_pullrequests := (\<lambda>log req. Inr ()) \<rparr>"

text \<open>Two pages of effective default reviewers, the first with a \<open>next\<close> link.\<close>

definition reviewer_pages :: "default_reviewer_and_type paginated list" where
  "reviewer_pages =
     [ \<lparr> values = [reviewer_entry ''{a}'' ''Alice'' ''repository''],
         pagelen = 1, page = 1, total_size = 2,
         next = Some ''https://api.bitbucket.org/2.0/repositories/acme/site/effective-default-reviewers?page=2'',
         previous = None \<rparr>,
       \<lparr> values = [reviewer_entry ''{b}'' ''Bob'' ''project''],
         pagelen = 1, page = 2, total_size = 2, next = None, previous = None \<rparr> ]"

definition paged_reviewers_api :: "(unit, string, string, unit, unit) api" where
  "paged_reviewers_api = offline_api
     \<lparr> get_effective_default_reviewers := replay (script reviewer_pages) \<rparr>"

section \<open>Properties of the file methods\<close>

lemma split_on_not_Nil [simp]: "split_on sep s \<noteq> []"
  by (induction s) (auto split: list.splits)

lemma split_on_no_separator: "sep \<notin> set s \<Longrightarrow> split_on sep s = [s]"
  by (induction s) auto

lemma split_on_append: "split_on sep (pre @ sep # suf) = split_on sep pre @ split_on sep suf"
proof (induction pre)
  case Nil
  show ?case by simp
next
  case (Cons c pre)
  obtain w ws where "split_on sep pre = w # ws"
    by (cases "split_on sep pre") auto
  with Cons show ?case by simp
qed

lemma at_last_split_on:
  assumes "sep \<notin> set suf"
  shows "at_last (split_on sep (pre @ sep # suf)) = Some suf"
proof -
  have "last (split_on sep (pre @ sep # suf)) = suf"
    using assms by (simp add: split_on_append split_on_no_separator)
  moreover have "at_last xs = Some (last xs)" if "xs \<noteq> []" for xs :: "string list"
    using that by (cases xs) auto
  ultimately show ?thesis by simp
qed

lemma commitHash_location:
  assumes "map_of (headers res) ''location'' = Some (pre @ CHR ''/'' # hash)"
    and "CHR ''/'' \<notin> set hash"
  shows "commitHash res = hash"
  using assms by (simp add: commitHash_def at_last_split_on)

lemma commitHash_missing:
  assumes "map_of (headers res) ''location'' = None"
  shows "commitHash res = ''<unknown>''"
  using assms by (simp add: commitHash_def)

lemma commitFile_result:
  assumes "post_src client log
             (commitFile_request workspace repoSlug filePath contents msg author branch) = Inr res"
  shows "commitFile client workspace repoSlug filePath contents msg author branch log =
           (Inr (commitHash res),
            log @ [commitFile_request workspace repoSlug filePath contents msg author branch])"
  using assms by (simp add: commitFile_def call_def)

lemma removeFile_result:
  assumes "post_src client log
             (removeFile_request workspace repoSlug filePath msg author branch) = Inr res"
  shows "removeFile client workspace repoSlug filePath msg author branch log =
           (Inr (commitHash res),
            log @ [removeFile_request workspace repoSlug filePath msg author branch])"
  using assms by (simp add: removeFile_def call_def)

lemma getFile_cases:
  "getFile client workspace repoSlug commitOrRef filePath log =
     (case get_src client log (getFile_request workspace repoSlug commitOrRef filePath) of
        Inr res \<Rightarrow> Inr (Some (body res))
      | Inl err \<Rightarrow>
          (case error_response err of
             None \<Rightarrow> Inl err
           | Some r \<Rightarrow> if statusCode r = 404 then Inr None else Inl err),
      log @ [getFile_request workspace repoSlug commitOrRef filePath])"
  by (simp add: getFile_def call_def split: sum.splits option.splits)

text \<open>
  C5. When the transport rejects the file request with an error whose response has
  status 404, \<open>getFile\<close> resolves to \<open>null\<close>; when it rejects with any other error (a
  response of another status, or no response at all), \<open>getFile\<close> rejects with that same
  error; when the request succeeds, \<open>getFile\<close> resolves to the text body. In each case
  exactly the one request is issued.
\<close>

theorem getFile_not_found_is_null:
  "(get_src client log (getFile_request workspace repoSlug commitOrRef filePath) = Inl err
      \<longrightarrow> (\<forall>r. error_response err = Some r \<and> statusCode r = 404
               \<longrightarrow> fst (getFile client workspace repoSlug commitOrRef filePath log) = Inr None)
        \<and> (\<forall>r. error_response err = Some r \<and> statusCode r \<noteq> 404
               \<longrightarrow> fst (getFile client workspace repoSlug commitOrRef filePath log) = Inl err)
        \<and> (error_response err = None
               \<longrightarrow> fst (getFile client workspace repoSlug commitOrRef filePath log) = Inl err))
   \<and> (get_src client log (getFile_request workspace repoSlug commitOrRef filePath) = Inr res
      \<longrightarrow> fst (getFile client workspace repoSlug commitOrRef filePath log) = Inr (Some (body res)))
   \<and> snd (getFile client workspace repoSlug commitOrRef filePath log) =
       log @ [getFile_request workspace repoSlug commitOrRef filePath]"
  by (simp add: getFile_cases)

lemma files_requests:
  "getFile_request ''acme'' ''site'' ''main'' ''gone.txt'' = get_request ''repositories/acme/site/src/main/gone.txt''"
  "getFile_request ''acme'' ''site'' ''main'' ''private.key'' = get_request ''repositories/acme/site/src/main/private.key''"
  "getFile_request ''acme'' ''site'' ''main'' ''docs/../README.md'' = get_request ''repositories/acme/site/src/main/README.md''"
  "getFile_request ''acme'' ''site'' ''main'' ''../x'' = get_request ''repositories/acme/site/src/main/x''"
  by (simp_all add: getFile_request_def get_request_def posix_resolve_root_def)

theorem getFile_not_found_is_null_witness:
  "get_src files_api [] (getFile_request ''acme'' ''site'' ''main'' ''gone.txt'') = Inl (http_error 404)
   \<and> fst (getFile files_api ''acme'' ''site'' ''main'' ''gone.txt'' []) = Inr None
   \<and> get_src files_api [] (getFile_request ''acme'' ''site'' ''main'' ''private.key'') = Inl (http_error 403)
   \<and> fst (getFile files_api ''acme'' ''site'' ''main'' ''private.key'' []) = Inl (http_error 403)
   \<and> get_src files_api [] (getFile_request ''acme'' ''site'' ''main'' ''../x'') = Inl network_error
   \<and> fst (getFile files_api ''acme'' ''site'' ''main'' ''../x'' []) = Inl network_error
   \<and> get_src files_api [] (getFile_request ''acme'' ''site'' ''main'' ''docs/../README.md'')
       = Inr \<lparr> statusCode = 200, headers = [], body = ''# site'' \<rparr>
   \<and> fst (getFile files_api ''acme'' ''site'' ''main'' ''docs/../README.md'' []) = Inr (Some ''# site'')
   \<and> snd (getFile files_api ''acme'' ''site'' ''main'' ''docs/../README.md'' [])
       = [get_request ''repositories/acme/site/src/main/README.md'']"
proof -
  have gone: "get_src files_api [] (getFile_request ''acme'' ''site'' ''main'' ''gone.txt'') = Inl (http_error 404)"
    and forbidden: "get_src files_api [] (getFile_request ''acme'' ''site'' ''main'' ''private.key'') = Inl (http_error 403)"
    and outside: "get_src files_api [] (getFile_request ''acme'' ''site'' ''main'' ''../x'') = Inl network_error"
    and readme: "get_src files_api [] (getFile_request ''acme'' ''site'' ''main'' ''docs/../README.md'')
       = Inr \<lparr> statusCode = 200, headers = [], body = ''# site'' \<rparr>"
    by (simp_all add: files_requests) (simp_all add: files_api_def get_request_def)
  have status: "error_response (http_error s) = Some \<lparr> statusCode = s, headers = [], body = [] \<rparr>" for s
    by (simp add: http_error_def)
  have none: "error_response network_error = None"
    by (simp add: network_error_def)
  note inst = getFile_not_found_is_null [where client = files_api and log = "[]"
      and workspace = "''acme''" and repoSlug = "''site''" and commitOrRef = "''main''"]
  have "fst (getFile files_api ''acme'' ''site'' ''main'' ''gone.txt'' []) = Inr None"
    using inst [where filePath = "''gone.txt''" and err = "http_error 404"] gone
    by (simp add: status)
  moreover have "fst (getFile files_api ''acme'' ''site'' ''main'' ''private.key'' []) = Inl (http_error 403)"
    using inst [where filePath = "''private.key''" and err = "http_error 403"] forbidden
    by (simp add: status)
  moreover have "fst (getFile files_api ''acme'' ''site'' ''main'' ''../x'' []) = Inl network_error"
    using inst [where filePath = "''../x''" and err = network_error] outside
    by (simp add: none)
  moreover have "fst (getFile files_api ''acme'' ''site'' ''main'' ''docs/../README.md'' []) = Inr (Some ''# site'')"
    using inst [where filePath = "''docs/../README.md''"
        and res = "\<lparr> statusCode = 200, headers = [], body = ''# site'' \<rparr>"] readme
    by simp
  moreover have "snd (getFile files_api ''acme'' ''site'' ''main'' ''docs/../README.md'' [])
       = [get_request ''repositories/acme/site/src/main/README.md'']"
    using inst [where filePath = "''docs/../README.md''"]
    by (simp add: files_requests)
  ultimately show ?thesis
    using gone forbidden outside readme by blast
qed

text \<open>
  C7. When the \<open>POST\<close> of \<open>commitFile\<close> or of \<open>removeFile\<close> succeeds with a response whose
  \<open>location\<close> header ends in \<open>/\<close> followed by a slash-free text \<open>hash\<close>, the method resolves
  to \<open>hash\<close>; when the response has no \<open>location\<close> header, it resolves to \<open><unknown>\<close>.
\<close>

theorem commit_hash_from_location:
  "(post_src client log (commitFile_request workspace repoSlug filePath contents msg author branch) = Inr res
      \<longrightarrow> (map_of (headers res) ''location'' = Some (pre @ CHR ''/'' # hash) \<and> CHR ''/'' \<notin> set hash
            \<longrightarrow> fst (commitFile client workspace repoSlug filePath contents msg author branch log) = Inr hash)
        \<and> (map_of (headers res) ''location'' = None
            \<longrightarrow> fst (commitFile client workspace repoSlug filePath contents msg author branch log) = Inr ''<unknown>''))
   \<and> (post_src client log (removeFile_request workspace repoSlug filePath msg author branch) = Inr res
      \<longrightarrow> (map_of (headers res) ''location'' = Some (pre @ CHR ''/'' # hash) \<and> CHR ''/'' \<notin> set hash
            \<longrightarrow> fst (removeFile client workspace repoSlug filePath msg author branch log) = Inr hash)
        \<and> (map_of (headers res) ''location'' = None
            \<longrightarrow> fst (removeFile client workspace repoSlug filePath msg author branch log) = Inr ''<unknown>''))"
  by (simp add: commitFile_result removeFile_result commitHash_location commitHash_missing)

theorem commit_hash_from_location_witness:
  "post_src files_api []
      (commitFile_request ''acme'' ''site'' ''index.html'' ''<html/>'' None None (Some ''main''))
     = Inr located_response
   \<and> map_of (headers located_response) ''location''
       = Some (''https://api.bitbucket.org/2.0/repositories/acme/site/commit'' @ CHR ''/'' # ''abc123'')
   \<and> CHR ''/'' \<notin> set ''abc123''
   \<and> fst (commitFile files_api ''acme'' ''site'' ''index.html'' ''<html/>'' None None (Some ''main'') [])
       = Inr ''abc123''
   \<and> post_src files_api [] (commitFile_request ''acme'' ''site'' ''old.txt'' '''' None None None)
       = Inr bare_response
   \<and> map_of (headers bare_response) ''location'' = None
   \<and> fst (commitFile files_api ''acme'' ''site'' ''old.txt'' '''' None None None []) = Inr ''<unknown>''
   \<and> post_src files_api [] (removeFile_request ''acme'' ''site'' ''index.html'' None None None)
       = Inr located_response
   \<and> fst (removeFile files_api ''acme'' ''site'' ''index.html'' None None None []) = Inr ''abc123''
   \<and> post_src files_api [] (removeFile_request ''acme'' ''site'' ''old.txt'' None None None)
       = Inr bare_response
   \<and> fst (removeFile files_api ''acme'' ''site'' ''old.txt'' None None None []) = Inr ''<unknown>''"
proof -
  have commit_new: "post_src files_api []
      (commitFile_request ''acme'' ''site'' ''index.html'' ''<html/>'' None None (Some ''main''))
     = Inr located_response"
    and commit_old: "post_src files_api [] (commitFile_request ''acme'' ''site'' ''old.txt'' '''' None None None)
       = Inr bare_response"
    by (simp_all add: files_api_def commitFile_request_def)
  have remove_new: "post_src files_api [] (removeFile_request ''acme'' ''site'' ''index.html'' None None None)
       = Inr located_response"
    and remove_old: "post_src files_api [] (removeFile_request ''acme'' ''site'' ''old.txt'' None None None)
       = Inr bare_response"
    by (simp_all add: files_api_def removeFile_request_def)
  have located: "map_of (headers located_response) ''location''
       = Some (''https://api.bitbucket.org/2.0/repositories/acme/site/commit'' @ CHR ''/'' # ''abc123'')"
    and bare: "map_of (headers bare_response) ''location'' = None"
    by (simp_all add: located_response_def bare_response_def)
  have slash_free: "CHR ''/'' \<notin> set ''abc123''"
    by simp
  note inst = commit_hash_from_location [where client = files_api and log = "[]"
      and workspace = "''acme''" and repoSlug = "''site''" and msg = None and author = None]
  have "fst (commitFile files_api ''acme'' ''site'' ''index.html'' ''<html/>'' None None (Some ''main'') [])
       = Inr ''abc123''"
    using inst [where filePath = "''index.html''" and contents = "''<html/>''" and branch = "Some ''main''"
        and res = located_response and hash = "''abc123''"
        and pre = "''https://api.bitbucket.org/2.0/repositories/acme/site/commit''"]
      commit_new located slash_free by blast
  moreover have "fst (commitFile files_api ''acme'' ''site'' ''old.txt'' '''' None None None []) = Inr ''<unknown>''"
    using inst [where filePath = "''old.txt''" and contents = "''''" and branch = None
        and res = bare_response] commit_old bare by blast
  moreover have "fst (removeFile files_api ''acme'' ''site'' ''index.html'' None None None []) = Inr ''abc123''"
    using inst [where filePath = "''index.html''" and branch = None
        and res = located_response and hash = "''abc123''"
        and pre = "''https://api.bitbucket.org/2.0/repositories/acme/site/commit''"]
      remove_new located slash_free by blast
  moreover have "fst (removeFile files_api ''acme'' ''site'' ''old.txt'' None None None []) = Inr ''<unknown>''"
    using inst [where filePath = "''old.txt''" and branch = None and res = bare_response]
      remove_old bare by blast
  ultimately show ?thesis
    using commit_new commit_old remove_new remove_old located bare slash_free by blast
qed

section \<open>Properties of the workspace lookup\<close>

text \<open>
  C9. The path that \<open>getWorkspace\<close> requests is \<open>workspaces/\<close>, the identifier, and a
  closing brace: for the workspace \<open>acme\<close> it is \<open>workspaces/acme}\<close>, which is not
  \<open>workspaces/\<close> followed by \<open>acme\<close>.
\<close>

theorem getWorkspace_trailing_brace:
  "issued log (getWorkspace client workspace log) = [get_request (''workspaces/'' @ workspace @ ''}'')]
   \<and> map url (issued [] (getWorkspace client ''acme'' [])) = [''workspaces/acme}'']
   \<and> ''workspaces/acme}'' \<noteq> ''workspaces/'' @ ''acme''"
  by (simp add: issued_def getWorkspace_def call_def get_request_def)

section \<open>Properties of the pipeline variables\<close>

lemma issued_call [simp]: "issued log (call endpoint req log) = [req]"
  by (simp add: issued_def call_def)

lemma issued_createRepoVariable:
  "issued log (createRepoVariable client workspace repoSlug varName varValue log) =
     [\<lparr> method = POST, url = variables_url workspace repoSlug,
        payload = Json (VariableJson ''pipeline_variable'' None varName varValue True) \<rparr>]"
  by (simp add: createRepoVariable_def)

lemma issued_updateRepoVariable:
  "issued log (updateRepoVariable client workspace repoSlug varUuid varName varValue log) =
     [\<lparr> method = PUT, url = variables_url workspace repoSlug @ ''/'' @ varUuid,
        payload = Json (VariableJson ''pipeline_variable'' (Some varUuid) varName varValue True) \<rparr>]"
  by (simp add: updateRepoVariable_def)

lemma getRepoVariables_listing:
  assumes "get_variables client log (get_request (variables_url workspace repoSlug)) = Inr listing"
  shows "getRepoVariables client workspace repoSlug log =
           (Inr (values listing), log @ [get_request (variables_url workspace repoSlug)])"
  using assms by (simp add: getRepoVariables_def call_def get_request_def)

lemma getRepoVariables_rejected:
  assumes "get_variables client log (get_request (variables_url workspace repoSlug)) = Inl err"
  shows "getRepoVariables client workspace repoSlug log =
           (Inl err, log @ [get_request (variables_url workspace repoSlug)])"
  using assms by (simp add: getRepoVariables_def call_def get_request_def)

lemma issued_after:
  assumes "snd result = (log @ [first]) @ rest"
  shows "issued log result = first # rest"
  using assms by (simp add: issued_def)

lemma snd_createRepoVariable:
  "snd (createRepoVariable client workspace repoSlug varName varValue log) =
     log @ [\<lparr> method = POST, url = variables_url workspace repoSlug,
              payload = Json (VariableJson ''pipeline_variable'' None varName varValue True) \<rparr>]"
  by (simp add: createRepoVariable_def call_def)

lemma snd_updateRepoVariable:
  "snd (updateRepoVariable client workspace repoSlug varUuid varName varValue log) =
     log @ [\<lparr> method = PUT, url = variables_url workspace repoSlug @ ''/'' @ varUuid,
              payload = Json (VariableJson ''pipeline_variable'' (Some varUuid) varName varValue True) \<rparr>]"
  by (simp add: updateRepoVariable_def call_def)

lemma find_first:
  assumes "P v" and "\<forall>u\<in>set before. \<not> P u"
  shows "find P (before @ v # after) = Some v"
  using assms by (induction before) auto

lemma setRepoVariable_absent:
  assumes "get_variables client log (get_request (variables_url workspace repoSlug)) = Inr listing"
    and "\<forall>v\<in>set (values listing). key v \<noteq> varName"
  shows "issued log (setRepoVariable client workspace repoSlug varName varValue log) =
           [get_request (variables_url workspace repoSlug),
            \<lparr> method = POST, url = variables_url workspace repoSlug,
              payload = Json (VariableJson ''pipeline_variable'' None varName varValue True) \<rparr>]"
proof -
  from assms(2) have "find (\<lambda>v. key v = varName) (values listing) = None"
    by (simp add: find_None_iff)
  then show ?thesis
    by (intro issued_after)
      (simp add: setRepoVariable_def getRepoVariables_listing [OF assms(1)] snd_createRepoVariable)
qed

lemma setRepoVariable_present:
  assumes "get_variables client log (get_request (variables_url workspace repoSlug)) = Inr listing"
    and "values listing = before @ v # after"
    and "key v = varName"
    and "\<forall>u\<in>set before. key u \<noteq> varName"
  shows "issued log (setRepoVariable client workspace repoSlug varName varValue log) =
           [get_request (variables_url workspace repoSlug),
            \<lparr> method = PUT, url = variables_url workspace repoSlug @ ''/'' @ var_uuid v,
              payload = Json (VariableJson ''pipeline_variable'' (Some (var_uuid v)) varName varValue True) \<rparr>]"
proof -
  from assms(2-) have "find (\<lambda>v. key v = varName) (values listing) = Some v"
    by (simp add: find_first)
  then show ?thesis
    by (intro issued_after)
      (simp add: setRepoVariable_def getRepoVariables_listing [OF assms(1)] snd_updateRepoVariable)
qed

lemma setRepoVariable_rejected:
  assumes "get_variables client log (get_request (variables_url workspace repoSlug)) = Inl err"
  shows "issued log (setRepoVariable client workspace repoSlug varName varValue log) =
           [get_request (variables_url workspace repoSlug)]"
  by (simp add: setRepoVariable_def getRepoVariables_rejected [OF assms] issued_def)

lemma first_match:
  assumes "\<exists>v\<in>set xs. P v"
  obtains before v after where "xs = before @ v # after" and "P v" and "\<forall>u\<in>set before. \<not> P u"
proof -
  from split_list_first_prop [OF assms]
  obtain before v after where "xs = before @ v # after \<and> P v \<and> (\<forall>u\<in>set before. \<not> P u)"
    by blast
  then show thesis using that by blast
qed

text \<open>
  C10. Every request that \<open>createRepoVariable\<close>, \<open>updateRepoVariable\<close> and
  \<open>setRepoVariable\<close> issue with a JSON body carries a pipeline-variable body whose
  \<open>secured\<close> field is \<open>true\<close>, whatever the arguments of the call and whatever the server
  replies; the create and the update call issue exactly one request, and it has such a body.
\<close>

theorem variable_writes_are_secured:
  "(\<forall>req\<in>set (issued log (createRepoVariable client workspace repoSlug varName varValue log)).
      \<forall>b. payload req = Json b \<longrightarrow> (\<exists>t u k v. b = VariableJson t u k v True))
   \<and> (\<forall>req\<in>set (issued log (updateRepoVariable client workspace repoSlug varUuid varName varValue log)).
      \<forall>b. payload req = Json b \<longrightarrow> (\<exists>t u k v. b = VariableJson t u k v True))
   \<and> (\<forall>req\<in>set (issued log (setRepoVariable client workspace repoSlug varName varValue log)).
      \<forall>b. payload req = Json b \<longrightarrow> (\<exists>t u k v. b = VariableJson t u k v True))
   \<and> (\<exists>k v. map payload (issued log (createRepoVariable client workspace repoSlug varName varValue log))
              = [Json (VariableJson ''pipeline_variable'' None k v True)])
   \<and> (\<exists>k v. map payload (issued log (updateRepoVariable client workspace repoSlug varUuid varName varValue log))
              = [Json (VariableJson ''pipeline_variable'' (Some varUuid) k v True)])"
proof -
  let ?list = "get_variables client log (get_request (variables_url workspace repoSlug))"
  have "\<forall>req\<in>set (issued log (setRepoVariable client workspace repoSlug varName varValue log)).
      \<forall>b. payload req = Json b \<longrightarrow> (\<exists>t u k v. b = VariableJson t u k v True)"
  proof (cases ?list)
    case (Inl err)
    then show ?thesis
      by (simp add: setRepoVariable_rejected get_request_def)
  next
    case (Inr listing)
    show ?thesis
    proof (cases "\<exists>v\<in>set (values listing). key v = varName")
      case False
      with Inr show ?thesis
        by (simp add: setRepoVariable_absent get_request_def)
    next
      case True
      then obtain before v after where "values listing = before @ v # after" "key v = varName"
        "\<forall>u\<in>set before. key u \<noteq> varName"
        by (rule first_match)
      with Inr show ?thesis
        by (simp add: setRepoVariable_present get_request_def)
    qed
  qed
  then show ?thesis
    by (simp add: issued_createRepoVariable issued_updateRepoVariable)
qed

theorem variable_writes_are_secured_witness:
  "\<lparr> method = POST, url = ''repositories/acme/site/pipelines_config/variables'',
      payload = Json (VariableJson ''pipeline_variable'' None ''TOKEN'' ''s3cret'' True) \<rparr>
     \<in> set (issued [] (setRepoVariable variables_api ''acme'' ''site'' ''TOKEN'' ''s3cret'' []))
   \<and> (\<exists>t u k v. VariableJson ''pipeline_variable'' None ''TOKEN'' ''s3cret'' True = VariableJson t u k v True)
   \<and> \<lparr> method = PUT, url = ''repositories/acme/site/pipelines_config/variables/{22}'',
        payload = Json (VariableJson ''pipeline_variable'' (Some ''{22}'') ''REGION'' ''us-east-1'' True) \<rparr>
     \<in> set (issued [] (setRepoVariable variables_api ''acme'' ''site'' ''REGION'' ''us-east-1'' []))
   \<and> (\<exists>t u k v. VariableJson ''pipeline_variable'' (Some ''{22}'') ''REGION'' ''us-east-1'' True
                   = VariableJson t u k v True)"
proof -
  let ?create = "\<lparr> method = POST, url = ''repositories/acme/site/pipelines_config/variables'',
      payload = Json (VariableJson ''pipeline_variable'' None ''TOKEN'' ''s3cret'' True) \<rparr>"
  let ?update = "\<lparr> method = PUT, url = ''repositories/acme/site/pipelines_config/variables/{22}'',
      payload = Json (VariableJson ''pipeline_variable'' (Some ''{22}'') ''REGION'' ''us-east-1'' True) \<rparr>"
  have "issued [] (setRepoVariable variables_api ''acme'' ''site'' ''TOKEN'' ''s3cret'' []) =
          [get_request ''repositories/acme/site/pipelines_config/variables'', ?create]"
    by (simp add: issued_def setRepoVariable_def getRepoVariables_def createRepoVariable_def
        call_def variables_api_def stored_variables_def variables_url_def get_request_def)
  then have created:
    "?create \<in> set (issued [] (setRepoVariable variables_api ''acme'' ''site'' ''TOKEN'' ''s3cret'' []))"
    by simp
  have "issued [] (setRepoVariable variables_api ''acme'' ''site'' ''REGION'' ''us-east-1'' []) =
          [get_request ''repositories/acme/site/pipelines_config/variables'', ?update]"
    by (simp add: issued_def setRepoVariable_def getRepoVariables_def updateRepoVariable_def
        call_def variables_api_def stored_variables_def variables_url_def get_request_def)
  then have updated:
    "?update \<in> set (issued [] (setRepoVariable variables_api ''acme'' ''site'' ''REGION'' ''us-east-1'' []))"
    by simp
  have "\<exists>t u k v. VariableJson ''pipeline_variable'' None ''TOKEN'' ''s3cret'' True = VariableJson t u k v True"
    using variable_writes_are_secured
      [of "[]" variables_api "''acme''" "''site''" "''TOKEN''" "''s3cret''"] created
    by (metis request.select_convs(3))
  moreover have "\<exists>t u k v. VariableJson ''pipeline_variable'' (Some ''{22}'') ''REGION'' ''us-east-1'' True
                   = VariableJson t u k v True"
    using variable_writes_are_secured
      [of "[]" variables_api "''acme''" "''site''" "''REGION''" "''us-east-1''"] updated
    by (metis request.select_convs(3))
  ultimately show ?thesis
    using created updated by blast
qed

lemma count_method_simps:
  "count_method m [] = 0"
  "count_method m (req # reqs) = (if method req = m then 1 else 0) + count_method m reqs"
  by (simp_all add: count_method_def)

text \<open>
  C3. When the listing of the repository's variables has no entry with key \<open>varName\<close>,
  \<open>setRepoVariable\<close> issues, after the listing request, one \<open>POST\<close> to the variables
  collection and nothing else: one \<open>POST\<close>, no \<open>PUT\<close>. When the listing has an entry with
  that key (\<open>v\<close> being the first such entry), it issues, after the listing request, one
  \<open>PUT\<close> to the collection path followed by \<open>/\<close> and the uuid of \<open>v\<close> and nothing else:
  one \<open>PUT\<close>, no \<open>POST\<close>.
\<close>

theorem setRepoVariable_creates_or_updates:
  "get_variables client log (get_request (variables_url workspace repoSlug)) = Inr listing \<longrightarrow>
     ((\<forall>v\<in>set (values listing). key v \<noteq> varName) \<longrightarrow>
        issued log (setRepoVariable client workspace repoSlug varName varValue log) =
          [get_request (variables_url workspace repoSlug),
           \<lparr> method = POST, url = variables_url workspace repoSlug,
             payload = Json (VariableJson ''pipeline_variable'' None varName varValue True) \<rparr>]
        \<and> count_method POST (issued log (setRepoVariable client workspace repoSlug varName varValue log)) = 1
        \<and> count_method PUT (issued log (setRepoVariable client workspace repoSlug varName varValue log)) = 0)
     \<and> (values listing = before @ v # after \<and> key v = varName \<and> (\<forall>u\<in>set before. key u \<noteq> varName) \<longrightarrow>
        issued log (setRepoVariable client workspace repoSlug varName varValue log) =
          [get_request (variables_url workspace repoSlug),
           \<lparr> method = PUT, url = variables_url workspace repoSlug @ ''/'' @ var_uuid v,
             payload = Json (VariableJson ''pipeline_variable'' (Some (var_uuid v)) varName varValue True) \<rparr>]
        \<and> count_method PUT (issued log (setRepoVariable client workspace repoSlug varName varValue log)) = 1
        \<and> count_method POST (issued log (setRepoVariable client workspace repoSlug varName varValue log)) = 0)"
  by (simp add: setRepoVariable_absent setRepoVariable_present get_request_def count_method_simps)

lemma stored_listing:
  "get_variables variables_api [] (get_request (variables_url ''acme'' ''site'')) =
     Inr \<lparr> values = stored_variables, pagelen = 10, page = 1, total_size = 2,
           next = None, previous = None \<rparr>"
  by (simp add: variables_api_def)

lemma stored_url: "variables_url ''acme'' ''site'' = ''repositories/acme/site/pipelines_config/variables''"
  by (simp add: variables_url_def)

theorem setRepoVariable_creates_or_updates_witness:
  "get_variables variables_api [] (get_request (variables_url ''acme'' ''site'')) =
     Inr \<lparr> values = stored_variables, pagelen = 10, page = 1, total_size = 2,
           next = None, previous = None \<rparr>
   \<and> ''TOKEN'' \<notin> key ` set stored_variables
   \<and> issued [] (setRepoVariable variables_api ''acme'' ''site'' ''TOKEN'' ''s3cret'' []) =
       [get_request ''repositories/acme/site/pipelines_config/variables'',
        \<lparr> method = POST, url = ''repositories/acme/site/pipelines_config/variables'',
          payload = Json (VariableJson ''pipeline_variable'' None ''TOKEN'' ''s3cret'' True) \<rparr>]
   \<and> stored_variables =
       [\<lparr> key = ''AWS_KEY'', val = [], secured = True, var_uuid = ''{11}'' \<rparr>]
       @ \<lparr> key = ''REGION'', val = ''eu-west-1'', secured = False, var_uuid = ''{22}'' \<rparr> # []
   \<and> issued [] (setRepoVariable variables_api ''acme'' ''site'' ''REGION'' ''us-east-1'' []) =
       [get_request ''repositories/acme/site/pipelines_config/variables'',
        \<lparr> method = PUT, url = ''repositories/acme/site/pipelines_config/variables/{22}'',
          payload = Json (VariableJson ''pipeline_variable'' (Some ''{22}'') ''REGION'' ''us-east-1'' True) \<rparr>]
   \<and> count_method PUT (issued [] (setRepoVariable variables_api ''acme'' ''site'' ''REGION'' ''us-east-1'' [])) = 1
   \<and> count_method POST (issued [] (setRepoVariable variables_api ''acme'' ''site'' ''REGION'' ''us-east-1'' [])) = 0"
proof -
  let ?listing = "\<lparr> values = stored_variables, pagelen = 10, page = 1, total_size = 2,
           next = None, previous = None \<rparr>"
  let ?region = "\<lparr> key = ''REGION'', val = ''eu-west-1'', secured = False, var_uuid = ''{22}'' \<rparr>"
  have absent: "\<forall>v\<in>set stored_variables. key v \<noteq> ''TOKEN''"
    by (simp add: stored_variables_def)
  have absent': "''TOKEN'' \<notin> key ` set stored_variables"
    by (simp add: stored_variables_def)
  have split: "stored_variables =
       [\<lparr> key = ''AWS_KEY'', val = [], secured = True, var_uuid = ''{11}'' \<rparr>] @ ?region # []"
    by (simp add: stored_variables_def)
  have "\<forall>v\<in>set (values ?listing). key v \<noteq> ''TOKEN''"
    using absent by simp
  from setRepoVariable_creates_or_updates [where client = variables_api and log = "[]"
      and workspace = "''acme''" and repoSlug = "''site''" and listing = ?listing
      and varName = "''TOKEN''" and varValue = "''s3cret''",
      THEN mp, OF stored_listing, THEN conjunct1, THEN mp, OF this]
  have created: "issued [] (setRepoVariable variables_api ''acme'' ''site'' ''TOKEN'' ''s3cret'' []) =
       [get_request ''repositories/acme/site/pipelines_config/variables'',
        \<lparr> method = POST, url = ''repositories/acme/site/pipelines_config/variables'',
          payload = Json (VariableJson ''pipeline_variable'' None ''TOKEN'' ''s3cret'' True) \<rparr>]"
    by (simp add: stored_url)
  have "values ?listing = [\<lparr> key = ''AWS_KEY'', val = [], secured = True, var_uuid = ''{11}'' \<rparr>] @ ?region # []
      \<and> key ?region = ''REGION''
      \<and> (\<forall>u\<in>set [\<lparr> key = ''AWS_KEY'', val = [], secured = True, var_uuid = ''{11}'' \<rparr>].
            key u \<noteq> ''REGION'')"
    by (simp add: stored_variables_def)
  from setRepoVariable_creates_or_updates [where client = variables_api and log = "[]"
      and workspace = "''acme''" and repoSlug = "''site''" and listing = ?listing
      and varName = "''REGION''" and varValue = "''us-east-1''",
      THEN mp, OF stored_listing, THEN conjunct2, THEN mp, OF this]
  have updated: "issued [] (setRepoVariable variables_api ''acme'' ''site'' ''REGION'' ''us-east-1'' []) =
       [get_request ''repositories/acme/site/pipelines_config/variables'',
        \<lparr> method = PUT, url = ''repositories/acme/site/pipelines_config/variables/{22}'',
          payload = Json (VariableJson ''pipeline_variable'' (Some ''{22}'') ''REGION'' ''us-east-1'' True) \<rparr>]
     \<and> count_method PUT (issued [] (setRepoVariable variables_api ''acme'' ''site'' ''REGION'' ''us-east-1'' [])) = 1
     \<and> count_method POST (issued [] (setRepoVariable variables_api ''acme'' ''site'' ''REGION'' ''us-east-1'' [])) = 0"
    by (simp add: stored_url count_method_simps get_request_def)
  show ?thesis
    using stored_listing absent' split created updated by blast
qed

lemma deleteRepoVariable_absent:
  assumes "get_variables client log (get_request (variables_url workspace repoSlug)) = Inr listing"
    and "\<forall>v\<in>set (values listing). key v \<noteq> varName"
  shows "deleteRepoVariable client workspace repoSlug varName log =
           (Inr None, log @ [get_request (variables_url workspace repoSlug)])"
proof -
  from assms(2) have "find (\<lambda>v. key v = varName) (values listing) = None"
    by (simp add: find_None_iff)
  then show ?thesis
    by (simp add: deleteRepoVariable_def getRepoVariables_listing [OF assms(1)])
qed

lemma deleteRepoVariable_present:
  assumes "get_variables client log (get_request (variables_url workspace repoSlug)) = Inr listing"
    and "values listing = before @ v # after"
    and "key v = varName"
    and "\<forall>u\<in>set before. key u \<noteq> varName"
  shows "issued log (deleteRepoVariable client workspace repoSlug varName log) =
           [get_request (variables_url workspace repoSlug),
            \<lparr> method = DELETE, url = variables_url workspace repoSlug @ ''/'' @ var_uuid v,
              payload = NoBody \<rparr>]"
proof -
  from assms(2-) have "find (\<lambda>v. key v = varName) (values listing) = Some v"
    by (simp add: find_first)
  then show ?thesis
    by (intro issued_after)
      (simp add: deleteRepoVariable_def getRepoVariables_listing [OF assms(1)] call_def
        split: sum.splits)
qed

text \<open>
  C4. When the listing of the repository's variables has no entry with key \<open>varName\<close>,
  \<open>deleteRepoVariable\<close> resolves to \<open>null\<close> and has issued the listing request only: no
  \<open>DELETE\<close>. When the listing has an entry with that key (\<open>v\<close> being the first such
  entry), it issues, after the listing request, one \<open>DELETE\<close> to the collection path
  followed by \<open>/\<close> and the uuid of \<open>v\<close>, and nothing else.
\<close>

theorem deleteRepoVariable_missing_is_null:
  "get_variables client log (get_request (variables_url workspace repoSlug)) = Inr listing \<longrightarrow>
     ((\<forall>v\<in>set (values listing). key v \<noteq> varName) \<longrightarrow>
        fst (deleteRepoVariable client workspace repoSlug varName log) = Inr None
        \<and> issued log (deleteRepoVariable client workspace repoSlug varName log) =
            [get_request (variables_url workspace repoSlug)]
        \<and> count_method DELETE (issued log (deleteRepoVariable client workspace repoSlug varName log)) = 0)
     \<and> (values listing = before @ v # after \<and> key v = varName \<and> (\<forall>u\<in>set before. key u \<noteq> varName) \<longrightarrow>
        issued log (deleteRepoVariable client workspace repoSlug varName log) =
          [get_request (variables_url workspace repoSlug),
           \<lparr> method = DELETE, url = variables_url workspace repoSlug @ ''/'' @ var_uuid v,
             payload = NoBody \<rparr>]
        \<and> count_method DELETE (issued log (deleteRepoVariable client workspace repoSlug varName log)) = 1)"
proof (intro impI conjI; (elim conjE)?)
  assume listing: "get_variables client log (get_request (variables_url workspace repoSlug)) = Inr listing"
  {
    assume "\<forall>v\<in>set (values listing). key v \<noteq> varName"
    with listing have absent: "deleteRepoVariable client workspace repoSlug varName log =
        (Inr None, log @ [get_request (variables_url workspace repoSlug)])"
      by (rule deleteRepoVariable_absent)
    then show "fst (deleteRepoVariable client workspace repoSlug varName log) = Inr None"
      by simp
    from absent show only_listing: "issued log (deleteRepoVariable client workspace repoSlug varName log) =
        [get_request (variables_url workspace repoSlug)]"
      by (simp add: issued_def)
    show "count_method DELETE (issued log (deleteRepoVariable client workspace repoSlug varName log)) = 0"
      by (simp add: only_listing count_method_simps get_request_def)
  }
  {
    assume "values listing = before @ v # after" and "key v = varName"
      and "\<forall>u\<in>set before. key u \<noteq> varName"
    with listing show present: "issued log (deleteRepoVariable client workspace repoSlug varName log) =
        [get_request (variables_url workspace repoSlug),
         \<lparr> method = DELETE, url = variables_url workspace repoSlug @ ''/'' @ var_uuid v,
           payload = NoBody \<rparr>]"
      by (rule deleteRepoVariable_present)
    show "count_method DELETE (issued log (deleteRepoVariable client workspace repoSlug varName log)) = 1"
      by (simp add: present count_method_simps get_request_def)
  }
qed

theorem deleteRepoVariable_missing_is_null_witness:
  "get_variables variables_api [] (get_request (variables_url ''acme'' ''site'')) =
     Inr \<lparr> values = stored_variables, pagelen = 10, page = 1, total_size = 2,
           next = None, previous = None \<rparr>
   \<and> ''TOKEN'' \<notin> key ` set stored_variables
   \<and> deleteRepoVariable variables_api ''acme'' ''site'' ''TOKEN'' [] =
       (Inr None, [get_request ''repositories/acme/site/pipelines_config/variables''])
   \<and> stored_variables =
       [\<lparr> key = ''AWS_KEY'', val = [], secured = True, var_uuid = ''{11}'' \<rparr>]
       @ \<lparr> key = ''REGION'', val = ''eu-west-1'', secured = False, var_uuid = ''{22}'' \<rparr> # []
   \<and> issued [] (deleteRepoVariable variables_api ''acme'' ''site'' ''REGION'' []) =
       [get_request ''repositories/acme/site/pipelines_config/variables'',
        \<lparr> method = DELETE, url = ''repositories/acme/site/pipelines_config/variables/{22}'',
          payload = NoBody \<rparr>]"
proof -
  let ?listing = "\<lparr> values = stored_variables, pagelen = 10, page = 1, total_size = 2,
           next = None, previous = None \<rparr>"
  let ?region = "\<lparr> key = ''REGION'', val = ''eu-west-1'', secured = False, var_uuid = ''{22}'' \<rparr>"
  have absent: "''TOKEN'' \<notin> key ` set stored_variables"
    and split: "stored_variables =
       [\<lparr> key = ''AWS_KEY'', val = [], secured = True, var_uuid = ''{11}'' \<rparr>] @ ?region # []"
    by (simp_all add: stored_variables_def)
  have "\<forall>v\<in>set (values ?listing). key v \<noteq> ''TOKEN''"
    by (simp add: stored_variables_def)
  from deleteRepoVariable_missing_is_null [where client = variables_api and log = "[]"
      and workspace = "''acme''" and repoSlug = "''site''" and listing = ?listing
      and varName = "''TOKEN''",
      THEN mp, OF stored_listing, THEN conjunct1, THEN mp, OF this]
  have missing: "deleteRepoVariable variables_api ''acme'' ''site'' ''TOKEN'' [] =
       (Inr None, [get_request ''repositories/acme/site/pipelines_config/variables''])"
    by (simp add: stored_url issued_def prod_eq_iff)
  have "values ?listing = [\<lparr> key = ''AWS_KEY'', val = [], secured = True, var_uuid = ''{11}'' \<rparr>] @ ?region # []
      \<and> key ?region = ''REGION''
      \<and> (\<forall>u\<in>set [\<lparr> key = ''AWS_KEY'', val = [], secured = True, var_uuid = ''{11}'' \<rparr>].
            key u \<noteq> ''REGION'')"
    by (simp add: stored_variables_def)
  from deleteRepoVariable_missing_is_null [where client = variables_api and log = "[]"
      and workspace = "''acme''" and repoSlug = "''site''" and listing = ?listing
      and varName = "''REGION''",
      THEN mp, OF stored_listing, THEN conjunct2, THEN mp, OF this]
  have present: "issued [] (deleteRepoVariable variables_api ''acme'' ''site'' ''REGION'' []) =
       [get_request ''repositories/acme/site/pipelines_config/variables'',
        \<lparr> method = DELETE, url = ''repositories/acme/site/pipelines_config/variables/{22}'',
          payload = NoBody \<rparr>]"
    by (simp add: stored_url)
  show ?thesis
    using stored_listing absent split missing present by blast
qed

section \<open>Properties of the reviewers and of pull requests\<close>

lemma getEffectiveDefaultReviewers_listing:
  assumes "get_effective_default_reviewers client log
             (get_request (''repositories/'' @ workspace @ ''/'' @ repoSlug @ ''/effective-default-reviewers''))
           = Inr listing"
  shows "getEffectiveDefaultReviewers client workspace repoSlug log =
           (Inr (map (\<lambda>entry. default_reviewer.extend (entry_user entry)
                                 (typed_reviewer.fields (entry_reviewer_type entry)))
                   (values listing)),
            log @ [get_request (''repositories/'' @ workspace @ ''/'' @ repoSlug @ ''/effective-default-reviewers'')])"
  using assms by (simp add: getEffectiveDefaultReviewers_def call_def get_request_def)

lemma snd_getEffectiveDefaultReviewers:
  "snd (getEffectiveDefaultReviewers client workspace repoSlug log) =
     log @ [get_request (''repositories/'' @ workspace @ ''/'' @ repoSlug @ ''/effective-default-reviewers'')]"
  by (simp add: getEffectiveDefaultReviewers_def call_def get_request_def split: sum.splits)

lemma reshaped_entry:
  "default_reviewer.truncate
     (default_reviewer.extend (entry_user entry) (typed_reviewer.fields (entry_reviewer_type entry)))
     = entry_user entry"
  "reviewer_type
     (default_reviewer.extend (entry_user entry) (typed_reviewer.fields (entry_reviewer_type entry)))
     = entry_reviewer_type entry"
  by (cases "entry_user entry", simp add: default_reviewer.defs typed_reviewer.defs)+

text \<open>
  C8, as the code has it. \<open>getEffectiveDefaultReviewers\<close> issues one \<open>GET\<close> and returns the
  entries of that one reply, each user with its \<open>reviewer_type\<close> added, whether or not the
  reply carries a \<open>next\<close> link: it does not follow the pagination.
\<close>

theorem getEffectiveDefaultReviewers_first_page_only:
  "get_effective_default_reviewers client log
      (get_request (''repositories/'' @ workspace @ ''/'' @ repoSlug @ ''/effective-default-reviewers''))
     = Inr listing
   \<longrightarrow> (\<exists>reviewers.
          getEffectiveDefaultReviewers client workspace repoSlug log =
            (Inr reviewers,
             log @ [get_request (''repositories/'' @ workspace @ ''/'' @ repoSlug @ ''/effective-default-reviewers'')])
          \<and> map default_reviewer.truncate reviewers = map entry_user (values listing)
          \<and> map reviewer_type reviewers = map entry_reviewer_type (values listing))"
  by (simp add: getEffectiveDefaultReviewers_listing reshaped_entry comp_def)

lemma typed_entry:
  "default_reviewer.extend (entry_user (reviewer_entry uid name kind))
     (typed_reviewer.fields (entry_reviewer_type (reviewer_entry uid name kind))) = typed uid name kind"
  by (simp add: reviewer_entry_def account_def typed_def default_reviewer.defs typed_reviewer.defs)

lemma truncate_typed: "default_reviewer.truncate (typed uid name kind) = account uid name"
  by (simp add: account_def typed_def default_reviewer.defs typed_reviewer.defs)

lemma entry_simps:
  "entry_user (reviewer_entry uid name kind) = account uid name"
  "entry_reviewer_type (reviewer_entry uid name kind) = kind"
  by (simp_all add: reviewer_entry_def)

lemma first_reviewer_page:
  "get_effective_default_reviewers paged_reviewers_api []
      (get_request (''repositories/'' @ ''acme'' @ ''/'' @ ''site'' @ ''/effective-default-reviewers''))
     = Inr (reviewer_pages ! 0)"
  by (simp add: paged_reviewers_api_def replay_def script_def reviewer_pages_def)

theorem getEffectiveDefaultReviewers_first_page_only_witness:
  "get_effective_default_reviewers paged_reviewers_api []
      (get_request (''repositories/'' @ ''acme'' @ ''/'' @ ''site'' @ ''/effective-default-reviewers''))
     = Inr (reviewer_pages ! 0)
   \<and> (\<exists>reviewers.
          getEffectiveDefaultReviewers paged_reviewers_api ''acme'' ''site'' [] =
            (Inr reviewers, [get_request ''repositories/acme/site/effective-default-reviewers''])
          \<and> map default_reviewer.truncate reviewers = [account ''{a}'' ''Alice'']
          \<and> map reviewer_type reviewers = [''repository''])"
  using getEffectiveDefaultReviewers_first_page_only [where client = paged_reviewers_api
      and log = "[]" and workspace = "''acme''" and repoSlug = "''site''"
      and listing = "reviewer_pages ! 0"] first_reviewer_page
  by (simp add: reviewer_pages_def entry_simps)

text \<open>
  The counterexample to C8 as stated: the server holds two pages of effective default
  reviewers, Alice on the first (which carries a \<open>next\<close> link) and Bob on the second. The
  call issues one request and returns Alice alone, not the concatenation of both pages.
\<close>

theorem getEffectiveDefaultReviewers_counterexample:
  "page_sequence (script reviewer_pages) 0 reviewer_pages
   \<and> get_effective_default_reviewers paged_reviewers_api = replay (script reviewer_pages)
   \<and> concat (map values reviewer_pages)
       = [reviewer_entry ''{a}'' ''Alice'' ''repository'', reviewer_entry ''{b}'' ''Bob'' ''project'']
   \<and> getEffectiveDefaultReviewers paged_reviewers_api ''acme'' ''site'' []
       = (Inr [typed ''{a}'' ''Alice'' ''repository''],
          [get_request ''repositories/acme/site/effective-default-reviewers''])
   \<and> fst (getEffectiveDefaultReviewers paged_reviewers_api ''acme'' ''site'' [])
       \<noteq> Inr [typed ''{a}'' ''Alice'' ''repository'', typed ''{b}'' ''Bob'' ''project'']"
proof -
  have "page_sequence (script reviewer_pages) 0 reviewer_pages"
    by (simp add: page_sequence_def script_def reviewer_pages_def less_Suc_eq numeral_2_eq_2)
  moreover have "get_effective_default_reviewers paged_reviewers_api = replay (script reviewer_pages)"
    by (simp add: paged_reviewers_api_def)
  moreover have "concat (map values reviewer_pages)
       = [reviewer_entry ''{a}'' ''Alice'' ''repository'', reviewer_entry ''{b}'' ''Bob'' ''project'']"
    by (simp add: reviewer_pages_def)
  moreover have result: "getEffectiveDefaultReviewers paged_reviewers_api ''acme'' ''site'' []
       = (Inr [typed ''{a}'' ''Alice'' ''repository''],
          [get_request ''repositories/acme/site/effective-default-reviewers''])"
    using getEffectiveDefaultReviewers_listing [OF first_reviewer_page]
    by (simp add: reviewer_pages_def typed_entry)
  moreover have "fst (getEffectiveDefaultReviewers paged_reviewers_api ''acme'' ''site'' [])
       \<noteq> Inr [typed ''{a}'' ''Alice'' ''repository'', typed ''{b}'' ''Bob'' ''project'']"
    by (simp add: result)
  ultimately show ?thesis by blast
qed

lemma getCurrentUser_unfold:
  "getCurrentUser client log = (get_user client log (get_request ''user''), log @ [get_request ''user''])"
  by (simp add: getCurrentUser_def call_def get_request_def)

lemma createPullRequest_submits:
  assumes "fst (getCurrentUser client log) = Inr currentUser"
    and "fst (getEffectiveDefaultReviewers client workspace repoSlug (snd (getCurrentUser client log)))
           = Inr reviewers"
  shows "issued log (createPullRequest client workspace repoSlug title sourceBranch destinationBranch log) =
           [get_request ''user'',
            get_request (''repositories/'' @ workspace @ ''/'' @ repoSlug @ ''/effective-default-reviewers''),
            \<lparr> method = POST,
              url = ''repositories/'' @ workspace @ ''/'' @ repoSlug @ ''/pullrequests'',
              payload = Json (PullRequestJson title sourceBranch
                                (if truthy_string destinationBranch then destinationBranch else None)
                                (filter (\<lambda>reviewer. uuid reviewer \<noteq> uuid currentUser) reviewers)
                                True) \<rparr>]"
proof -
  let ?log' = "log @ [get_request ''user'']"
  from assms(1) have user: "getCurrentUser client log = (Inr currentUser, ?log')"
    by (simp add: getCurrentUser_unfold)
  with assms(2) have "getEffectiveDefaultReviewers client workspace repoSlug ?log' =
      (Inr reviewers,
       ?log' @ [get_request (''repositories/'' @ workspace @ ''/'' @ repoSlug @ ''/effective-default-reviewers'')])"
    using snd_getEffectiveDefaultReviewers [of client workspace repoSlug ?log']
    by (simp add: prod_eq_iff)
  moreover have "filter (\<lambda>reviewer. uuid currentUser \<noteq> uuid reviewer) reviewers =
      filter (\<lambda>reviewer. uuid reviewer \<noteq> uuid currentUser) reviewers"
    by (rule filter_cong) auto
  ultimately show ?thesis
    by (simp add: createPullRequest_def user issued_def call_def Let_def)
qed

text \<open>
  C6. Let \<open>currentUser\<close> be the account that \<open>getCurrentUser\<close> resolves to and \<open>reviewers\<close>
  the list that \<open>getEffectiveDefaultReviewers\<close> resolves to. Then \<open>createPullRequest\<close>
  issues, after these two lookups, one \<open>POST\<close> to the repository's \<open>pullrequests\<close> path
  whose JSON body carries the title, the source branch, as reviewers the list \<open>reviewers\<close>
  without the entries whose \<open>uuid\<close> is the current user's, and \<open>close_source_branch\<close> set
  to \<open>true\<close>; the body has no \<open>destination\<close> when no destination branch is given, and the
  given branch when a non-empty one is.
\<close>

theorem createPullRequest_excludes_author:
  "fst (getCurrentUser client log) = Inr currentUser
   \<and> fst (getEffectiveDefaultReviewers client workspace repoSlug (snd (getCurrentUser client log)))
       = Inr reviewers
   \<longrightarrow> (\<exists>destination.
          issued log (createPullRequest client workspace repoSlug title sourceBranch destinationBranch log) =
            [get_request ''user'',
             get_request (''repositories/'' @ workspace @ ''/'' @ repoSlug @ ''/effective-default-reviewers''),
             \<lparr> method = POST,
               url = ''repositories/'' @ workspace @ ''/'' @ repoSlug @ ''/pullrequests'',
               payload = Json (PullRequestJson title sourceBranch destination
                                 (filter (\<lambda>reviewer. uuid reviewer \<noteq> uuid currentUser) reviewers)
                                 True) \<rparr>]
          \<and> (destinationBranch = None \<longrightarrow> destination = None)
          \<and> (\<forall>b. destinationBranch = Some b \<and> b \<noteq> [] \<longrightarrow> destination = Some b))"
proof (intro impI; elim conjE)
  assume "fst (getCurrentUser client log) = Inr currentUser"
    and "fst (getEffectiveDefaultReviewers client workspace repoSlug (snd (getCurrentUser client log)))
       = Inr reviewers"
  from createPullRequest_submits [OF this]
  show "\<exists>destination.
          issued log (createPullRequest client workspace repoSlug title sourceBranch destinationBranch log) =
            [get_request ''user'',
             get_request (''repositories/'' @ workspace @ ''/'' @ repoSlug @ ''/effective-default-reviewers''),
             \<lparr> method = POST,
               url = ''repositories/'' @ workspace @ ''/'' @ repoSlug @ ''/pullrequests'',
               payload = Json (PullRequestJson title sourceBranch destination
                                 (filter (\<lambda>reviewer. uuid reviewer \<noteq> uuid currentUser) reviewers)
                                 True) \<rparr>]
          \<and> (destinationBranch = None \<longrightarrow> destination = None)
          \<and> (\<forall>b. destinationBranch = Some b \<and> b \<noteq> [] \<longrightarrow> destination = Some b)"
    by (intro exI [of _ "if truthy_string destinationBranch then destinationBranch else None"]) auto
qed

lemma pullrequest_lookups:
  "fst (getCurrentUser pullrequest_api []) = Inr (account ''{c}'' ''Carol'')"
  "fst (getEffectiveDefaultReviewers pullrequest_api ''acme'' ''site'' (snd (getCurrentUser pullrequest_api [])))
     = Inr [typed ''{a}'' ''Alice'' ''repository'', typed ''{b}'' ''Bob'' ''project'',
            typed ''{c}'' ''Carol'' ''project'']"
  by (simp_all add: getCurrentUser_def getEffectiveDefaultReviewers_def call_def pullrequest_api_def
      typed_entry)

lemma without_carol:
  "filter (\<lambda>reviewer. uuid reviewer \<noteq> uuid (account ''{c}'' ''Carol''))
     [typed ''{a}'' ''Alice'' ''repository'', typed ''{b}'' ''Bob'' ''project'',
      typed ''{c}'' ''Carol'' ''project'']
   = [typed ''{a}'' ''Alice'' ''repository'', typed ''{b}'' ''Bob'' ''project'']"
  by (simp add: typed_def account_def)

theorem createPullRequest_excludes_author_witness:
  "fst (getCurrentUser pullrequest_api []) = Inr (account ''{c}'' ''Carol'')
   \<and> fst (getEffectiveDefaultReviewers pullrequest_api ''acme'' ''site''
            (snd (getCurrentUser pullrequest_api [])))
       = Inr [typed ''{a}'' ''Alice'' ''repository'', typed ''{b}'' ''Bob'' ''project'',
              typed ''{c}'' ''Carol'' ''project'']
   \<and> issued [] (createPullRequest pullrequest_api ''acme'' ''site'' ''Fix typo'' ''fix/typo'' None []) =
       [get_request ''user'',
        get_request ''repositories/acme/site/effective-default-reviewers'',
        \<lparr> method = POST, url = ''repositories/acme/site/pullrequests'',
          payload = Json (PullRequestJson ''Fix typo'' ''fix/typo'' None
                            [typed ''{a}'' ''Alice'' ''repository'', typed ''{b}'' ''Bob'' ''project'']
                            True) \<rparr>]
   \<and> issued [] (createPullRequest pullrequest_api ''acme'' ''site'' ''Fix typo'' ''fix/typo''
                  (Some ''release'') []) =
       [get_request ''user'',
        get_request ''repositories/acme/site/effective-default-reviewers'',
        \<lparr> method = POST, url = ''repositories/acme/site/pullrequests'',
          payload = Json (PullRequestJson ''Fix typo'' ''fix/typo'' (Some ''release'')
                            [typed ''{a}'' ''Alice'' ''repository'', typed ''{b}'' ''Bob'' ''project'']
                            True) \<rparr>]"
proof -
  note lookups = conjI [OF pullrequest_lookups]
  from createPullRequest_excludes_author [where client = pullrequest_api and log = "[]"
      and workspace = "''acme''" and repoSlug = "''site''" and title = "''Fix typo''"
      and sourceBranch = "''fix/typo''" and destinationBranch = None, THEN mp, OF lookups]
  have default_branch:
    "issued [] (createPullRequest pullrequest_api ''acme'' ''site'' ''Fix typo'' ''fix/typo'' None []) =
       [get_request ''user'',
        get_request ''repositories/acme/site/effective-default-reviewers'',
        \<lparr> method = POST, url = ''repositories/acme/site/pullrequests'',
          payload = Json (PullRequestJson ''Fix typo'' ''fix/typo'' None
                            [typed ''{a}'' ''Alice'' ''repository'', typed ''{b}'' ''Bob'' ''project'']
                            True) \<rparr>]"
    unfolding without_carol by auto
  from createPullRequest_excludes_author [where client = pullrequest_api and log = "[]"
      and workspace = "''acme''" and repoSlug = "''site''" and title = "''Fix typo''"
      and sourceBranch = "''fix/typo''" and destinationBranch = "Some ''release''", THEN mp, OF lookups]
  have given_branch:
    "issued [] (createPullRequest pullrequest_api ''acme'' ''site'' ''Fix typo'' ''fix/typo''
                  (Some ''release'') []) =
       [get_request ''user'',
        get_request ''repositories/acme/site/effective-default-reviewers'',
        \<lparr> method = POST, url = ''repositories/acme/site/pullrequests'',
          payload = Json (PullRequestJson ''Fix typo'' ''fix/typo'' (Some ''release'')
                            [typed ''{a}'' ''Alice'' ''repository'', typed ''{b}'' ''Bob'' ''project'']
                            True) \<rparr>]"
    unfolding without_carol by auto
  show ?thesis
    using pullrequest_lookups default_branch given_branch by blast
qed

section \<open>Properties of the paginated listings\<close>

subsection \<open>Rendering of the page parameter\<close>

lemma digit_char_decimal: "d < 10 \<Longrightarrow> digit_char d \<in> set ''0123456789''"
  unfolding digit_char_def by (rule nth_mem) simp

lemma show_nat_decimal: "set (show_nat n) \<subseteq> set ''0123456789''"
proof (induction n rule: show_nat.induct)
  case (1 n)
  show ?case
  proof (cases "n < 10")
    case True
    then show ?thesis
      using digit_char_decimal [of n] by (subst show_nat.simps) simp
  next
    case False
    moreover have "digit_char (n mod 10) \<in> set ''0123456789''"
      by (rule digit_char_decimal) simp
    ultimately show ?thesis
      using 1 by (subst show_nat.simps) simp
  qed
qed

lemma form_encode_safe:
  assumes "set s \<subseteq> set form_safe"
  shows "form_encode s = s"
proof -
  have "CHR '' '' \<notin> set form_safe" by (simp add: form_safe_def)
  with assms have "form_encode_byte c = [c]" if "c \<in> set s" for c
    using that by (auto simp add: form_encode_byte_def)
  then have "concat (map form_encode_byte s) = s"
    by (induction s) simp_all
  then show ?thesis by (simp add: form_encode_def)
qed

lemma form_encode_show_number: "form_encode (show_number n) = show_number n"
proof (rule form_encode_safe)
  have "set ''0123456789'' \<subseteq> set form_safe" "CHR ''-'' \<in> set form_safe"
    by (simp_all add: form_safe_def)
  then show "set (show_number n) \<subseteq> set form_safe"
    using show_nat_decimal [of "nat n"] show_nat_decimal [of "nat (- n)"]
    by (auto simp add: show_number_def)
qed

lemma repositories_request_first:
  "repositories_request workspace projectKey None =
     get_request (''repositories/'' @ workspace @ ''?q=project.key=\"'' @ projectKey @ ''\"'')"
  by (simp add: repositories_request_def get_request_def)

lemma repositories_request_page:
  "n \<noteq> 0 \<Longrightarrow> repositories_request workspace projectKey (Some n) =
     get_request ((''repositories/'' @ workspace @ ''?q=project.key=\"'' @ projectKey @ ''\"'')
                    @ ''&page='' @ show_number n)"
  by (simp add: repositories_request_def get_request_def)

lemma code_search_request_first:
  "code_search_request workspace query None =
     get_request (''workspaces/'' @ workspace @ ''/search/code?search_query='' @ form_encode query
                   @ ''&fields=%2Bvalues.file.commit.repository'')"
  by (simp add: code_search_request_def get_request_def URLSearchParams_toString_def
        form_encode_def form_encode_byte_def form_safe_def hex_digit_def)

lemma code_search_request_page:
  "n \<noteq> 0 \<Longrightarrow> code_search_request workspace query (Some n) =
     get_request ((''workspaces/'' @ workspace @ ''/search/code?search_query='' @ form_encode query
                   @ ''&fields=%2Bvalues.file.commit.repository'') @ ''&page='' @ show_number n)"
  using form_encode_show_number [of n]
  by (simp add: code_search_request_def get_request_def URLSearchParams_toString_def)
    (simp add: form_encode_def form_encode_byte_def form_safe_def hex_digit_def)

subsection \<open>The recursion over the pages\<close>

lemma replay_head:
  assumes "\<forall>i<length (p # ps). replies (length log + i) = Inr ((p # ps) ! i)"
  shows "replies (length log) = Inr p"
proof -
  from assms have "replies (length log + 0) = Inr ((p # ps) ! 0)" by blast
  then show ?thesis by simp
qed

lemma replay_tail:
  assumes "\<forall>i<length (p # ps). replies (length log + i) = Inr ((p # ps) ! i)"
  shows "\<forall>i<length ps. replies (length (log @ [req]) + i) = Inr (ps ! i)"
proof (intro allI impI)
  fix i assume "i < length ps"
  then have "Suc i < length (p # ps)" by simp
  with assms have "replies (length log + Suc i) = Inr ((p # ps) ! Suc i)" by blast
  then show "replies (length (log @ [req]) + i) = Inr (ps ! i)" by simp
qed

lemma getRepositoriesByProject_pages:
  assumes "get_repositories client = replay replies"
    and "pages \<noteq> []"
    and "\<forall>i<length pages. replies (length log + i) = Inr (pages ! i)"
    and "\<forall>res\<in>set (butlast pages). truthy_string (next res)"
    and "\<not> truthy_string (next (last pages))"
  shows "getRepositoriesByProject client workspace projectKey requestPage log =
           Some (Inr (concat (map values pages)),
                 log @ repositories_request workspace projectKey requestPage
                     # map (\<lambda>res. repositories_request workspace projectKey (Some (page res + 1)))
                         (butlast pages))"
  using assms(2-)
proof (induction pages arbitrary: requestPage log)
  case Nil
  then show ?case by simp
next
  case (Cons p ps)
  let ?req = "repositories_request workspace projectKey requestPage"
  note head = replay_head [OF Cons.prems(2)]
  note tail = replay_tail [OF Cons.prems(2), of ?req]
  have first: "get_repositories client log req = Inr p" for req
    by (simp add: assms(1) replay_def head)
  show ?case
  proof (cases "ps = []")
    case True
    with Cons.prems(4) have "\<not> truthy_string (next p)" by simp
    with True first show ?thesis
      by (subst getRepositoriesByProject.simps) (simp add: call_def)
  next
    case False
    with Cons.prems(3) have more: "truthy_string (next p)" by simp
    from False Cons.prems(3) have "\<forall>res\<in>set (butlast ps). truthy_string (next res)"
      by simp
    moreover from False Cons.prems(4) have "\<not> truthy_string (next (last ps))"
      by simp
    ultimately have rest:
      "getRepositoriesByProject client workspace projectKey (Some (page p + 1)) (log @ [?req]) =
         Some (Inr (concat (map values ps)),
               (log @ [?req]) @ repositories_request workspace projectKey (Some (page p + 1))
                  # map (\<lambda>res. repositories_request workspace projectKey (Some (page res + 1)))
                      (butlast ps))"
      using False tail by (intro Cons.IH)
    show ?thesis
      using False first more
      by (subst getRepositoriesByProject.simps) (simp add: call_def rest)
  qed
qed

lemma codeSearch_pages:
  assumes "get_search_code client = replay replies"
    and "pages \<noteq> []"
    and "\<forall>i<length pages. replies (length log + i) = Inr (pages ! i)"
    and "\<forall>res\<in>set (butlast pages). truthy_string (next res)"
    and "\<not> truthy_string (next (last pages))"
  shows "codeSearch client workspace query requestPage log =
           Some (Inr (concat (map values pages)),
                 log @ code_search_request workspace query requestPage
                     # map (\<lambda>res. code_search_request workspace query (Some (page res + 1)))
                         (butlast pages))"
  using assms(2-)
proof (induction pages arbitrary: requestPage log)
  case Nil
  then show ?case by simp
next
  case (Cons p ps)
  let ?req = "code_search_request workspace query requestPage"
  note head = replay_head [OF Cons.prems(2)]
  note tail = replay_tail [OF Cons.prems(2), of ?req]
  have first: "get_search_code client log req = Inr p" for req
    by (simp add: assms(1) replay_def head)
  show ?case
  proof (cases "ps = []")
    case True
    with Cons.prems(4) have "\<not> truthy_string (next p)" by simp
    with True first show ?thesis
      by (subst codeSearch.simps) (simp add: call_def)
  next
    case False
    with Cons.prems(3) have more: "truthy_string (next p)" by simp
    from False Cons.prems(3) have "\<forall>res\<in>set (butlast ps). truthy_string (next res)"
      by simp
    moreover from False Cons.prems(4) have "\<not> truthy_string (next (last ps))"
      by simp
    ultimately have rest:
      "codeSearch client workspace query (Some (page p + 1)) (log @ [?req]) =
         Some (Inr (concat (map values ps)),
               (log @ [?req]) @ code_search_request workspace query (Some (page p + 1))
                  # map (\<lambda>res. code_search_request workspace query (Some (page res + 1)))
                      (butlast ps))"
      using False tail by (intro Cons.IH)
    show ?thesis
      using False first more
      by (subst codeSearch.simps) (simp add: call_def rest)
  qed
qed

lemma page_requests_urls:
  assumes "\<forall>res\<in>set (butlast pages). page res + 1 \<noteq> 0"
    and "build None = get_request first_url"
    and "\<And>n. n \<noteq> 0 \<Longrightarrow> build (Some n) = get_request (first_url @ ''&page='' @ show_number n)"
  shows "build None # map (\<lambda>res. build (Some (page res + 1))) (butlast pages) =
           map get_request (page_urls first_url pages)"
  using assms by (simp add: page_urls_def)

lemma getRepositoriesByProject_last_page:
  assumes "get_repositories client log (repositories_request workspace projectKey requestPage) = Inr res"
    and "\<not> truthy_string (next res)"
  shows "getRepositoriesByProject client workspace projectKey requestPage log =
           Some (Inr (values res), log @ [repositories_request workspace projectKey requestPage])"
  using assms by (subst getRepositoriesByProject.simps) (simp add: call_def)

lemma codeSearch_last_page:
  assumes "get_search_code client log (code_search_request workspace query requestPage) = Inr res"
    and "\<not> truthy_string (next res)"
  shows "codeSearch client workspace query requestPage log =
           Some (Inr (values res), log @ [code_search_request workspace query requestPage])"
  using assms by (subst codeSearch.simps) (simp add: call_def)

lemma getRepositoriesByProject_returns:
  assumes "get_repositories client = replay replies"
    and "replies (length log + n) = Inr res"
    and "\<not> truthy_string (next res)"
  shows "\<exists>r. getRepositoriesByProject client workspace projectKey requestPage log = Some r"
  using assms(2)
proof (induction n arbitrary: requestPage log)
  case 0
  then have "get_repositories client log req = Inr res" for req
    by (simp add: assms(1) replay_def)
  then show ?case
    using assms(3) by (simp add: getRepositoriesByProject_last_page)
next
  case (Suc n)
  let ?req = "repositories_request workspace projectKey requestPage"
  show ?case
  proof (cases "get_repositories client log ?req")
    case (Inl err)
    then show ?thesis
      by (subst getRepositoriesByProject.simps) (simp add: call_def)
  next
    case (Inr p)
    show ?thesis
    proof (cases "truthy_string (next p)")
      case False
      with Inr show ?thesis
        by (simp add: getRepositoriesByProject_last_page)
    next
      case True
      from Suc.prems have "replies (length (log @ [?req]) + n) = Inr res" by simp
      then obtain r where
        "getRepositoriesByProject client workspace projectKey (Some (page p + 1)) (log @ [?req]) = Some r"
        using Suc.IH by blast
      with Inr True show ?thesis
        by (subst getRepositoriesByProject.simps)
          (auto simp add: call_def split: prod.splits sum.splits)
    qed
  qed
qed

lemma codeSearch_returns:
  assumes "get_search_code client = replay replies"
    and "replies (length log + n) = Inr res"
    and "\<not> truthy_string (next res)"
  shows "\<exists>r. codeSearch client workspace query requestPage log = Some r"
  using assms(2)
proof (induction n arbitrary: requestPage log)
  case 0
  then have "get_search_code client log req = Inr res" for req
    by (simp add: assms(1) replay_def)
  then show ?case
    using assms(3) by (simp add: codeSearch_last_page)
next
  case (Suc n)
  let ?req = "code_search_request workspace query requestPage"
  show ?case
  proof (cases "get_search_code client log ?req")
    case (Inl err)
    then show ?thesis
      by (subst codeSearch.simps) (simp add: call_def)
  next
    case (Inr p)
    show ?thesis
    proof (cases "truthy_string (next p)")
      case False
      with Inr show ?thesis
        by (simp add: codeSearch_last_page)
    next
      case True
      from Suc.prems have "replies (length (log @ [?req]) + n) = Inr res" by simp
      then obtain r where
        "codeSearch client workspace query (Some (page p + 1)) (log @ [?req]) = Some r"
        using Suc.IH by blast
      with Inr True show ?thesis
        by (subst codeSearch.simps) (auto simp add: call_def split: prod.splits sum.splits)
    qed
  qed
qed

text \<open>
  C1, as the code has it. Let a mocked endpoint play a sequence of replies that, from the
  current position on, are the pages \<open>pages\<close>: each page but the last has a \<open>next\<close> link,
  the last has none, and the \<open>page\<close> field of each page but the last is a safe integer
  other than \<open>-1\<close> (the client tests the next page number for truthiness, so the
  successor \<open>0\<close> of \<open>-1\<close> counts as "no page"). Then \<open>getRepositoriesByProject\<close> and
  \<open>codeSearch\<close>, called without a page, return the concatenation of the \<open>values\<close> of all
  pages in page order, and issue one \<open>GET\<close> per page: the first without page parameter,
  each later one with \<open>&page=\<close> followed by the previous reply's \<open>page\<close> field plus one.
\<close>

theorem pagination_concatenates_pages:
  "(get_repositories client = replay replies \<and> page_sequence replies (length log) pages
      \<and> safe_pages pages
      \<longrightarrow> getRepositoriesByProject client workspace projectKey None log =
            Some (Inr (concat (map values pages)),
                  log @ map get_request
                          (page_urls (''repositories/'' @ workspace @ ''?q=project.key=\"'' @ projectKey @ ''\"'')
                             pages))
          \<and> length (page_urls (''repositories/'' @ workspace @ ''?q=project.key=\"'' @ projectKey @ ''\"'')
                      pages) = length pages)
   \<and> (get_search_code client = replay hit_replies \<and> page_sequence hit_replies (length log) hit_pages
      \<and> safe_pages hit_pages
      \<longrightarrow> codeSearch client workspace query None log =
            Some (Inr (concat (map values hit_pages)),
                  log @ map get_request
                          (page_urls (''workspaces/'' @ workspace @ ''/search/code?search_query=''
                                        @ form_encode query @ ''&fields=%2Bvalues.file.commit.repository'')
                             hit_pages))
          \<and> length (page_urls (''workspaces/'' @ workspace @ ''/search/code?search_query=''
                                  @ form_encode query @ ''&fields=%2Bvalues.file.commit.repository'')
                      hit_pages) = length hit_pages)"
proof (intro conjI impI; elim conjE)
  let ?first = "''repositories/'' @ workspace @ ''?q=project.key=\"'' @ projectKey @ ''\"''"
  assume client: "get_repositories client = replay replies"
    and pages: "page_sequence replies (length log) pages"
  from pages have "repositories_request workspace projectKey None
      # map (\<lambda>res. repositories_request workspace projectKey (Some (page res + 1))) (butlast pages)
      = map get_request (page_urls ?first pages)"
    by (intro page_requests_urls)
      (simp_all add: page_sequence_def repositories_request_first repositories_request_page)
  with client pages
  show "getRepositoriesByProject client workspace projectKey None log =
          Some (Inr (concat (map values pages)), log @ map get_request (page_urls ?first pages))"
    using getRepositoriesByProject_pages [of client replies pages log workspace projectKey None]
    by (simp add: page_sequence_def)
  from pages show "length (page_urls ?first pages) = length pages"
    by (simp add: page_urls_def page_sequence_def)
next
  let ?first = "''workspaces/'' @ workspace @ ''/search/code?search_query=''
                  @ form_encode query @ ''&fields=%2Bvalues.file.commit.repository''"
  assume client: "get_search_code client = replay hit_replies"
    and pages: "page_sequence hit_replies (length log) hit_pages"
  from pages have "code_search_request workspace query None
      # map (\<lambda>res. code_search_request workspace query (Some (page res + 1))) (butlast hit_pages)
      = map get_request (page_urls ?first hit_pages)"
    by (intro page_requests_urls)
      (simp_all add: page_sequence_def code_search_request_first code_search_request_page)
  with client pages
  show "codeSearch client workspace query None log =
          Some (Inr (concat (map values hit_pages)), log @ map get_request (page_urls ?first hit_pages))"
    using codeSearch_pages [of client hit_replies hit_pages log workspace query None]
    by (simp add: page_sequence_def)
  from pages show "length (page_urls ?first hit_pages) = length hit_pages"
    by (simp add: page_urls_def page_sequence_def)
qed

lemma three_pages_sequence: "page_sequence (script three_pages) 0 three_pages"
  by (simp add: page_sequence_def script_def three_pages_def less_Suc_eq numeral_3_eq_3)

lemma three_pages_values:
  "concat (map values three_pages) = [''api'', ''web'', ''docs'', ''infra'', ''tools'']"
  by (simp add: three_pages_def)

lemma three_pages_urls:
  "page_urls first_url three_pages = [first_url, first_url @ ''&page=2'', first_url @ ''&page=3'']"
  by (simp add: page_urls_def three_pages_def show_number_def show_nat.simps digit_char_def)

theorem pagination_concatenates_pages_witness:
  "get_repositories paged_api = replay (script three_pages)
   \<and> get_search_code paged_api = replay (script three_pages)
   \<and> page_sequence (script three_pages) (length ([] :: request list)) three_pages
   \<and> safe_pages three_pages
   \<and> getRepositoriesByProject paged_api ''acme'' ''PK'' None [] =
        Some (Inr [''api'', ''web'', ''docs'', ''infra'', ''tools''],
              [get_request ''repositories/acme?q=project.key=\"PK\"'',
               get_request ''repositories/acme?q=project.key=\"PK\"&page=2'',
               get_request ''repositories/acme?q=project.key=\"PK\"&page=3''])
   \<and> codeSearch paged_api ''acme'' ''class Foo'' None [] =
        Some (Inr [''api'', ''web'', ''docs'', ''infra'', ''tools''],
              [get_request ''workspaces/acme/search/code?search_query=class+Foo&fields=%2Bvalues.file.commit.repository'',
               get_request ''workspaces/acme/search/code?search_query=class+Foo&fields=%2Bvalues.file.commit.repository&page=2'',
               get_request ''workspaces/acme/search/code?search_query=class+Foo&fields=%2Bvalues.file.commit.repository&page=3''])"
proof -
  have repos: "get_repositories paged_api = replay (script three_pages)"
    and search: "get_search_code paged_api = replay (script three_pages)"
    by (simp_all add: paged_api_def)
  have pages: "page_sequence (script three_pages) (length ([] :: request list)) three_pages"
    using three_pages_sequence by simp
  have safe: "safe_pages three_pages"
    by (simp add: safe_pages_def safe_integer_def three_pages_def)
  have query: "form_encode ''class Foo'' = ''class+Foo''"
    by (simp add: form_encode_def form_encode_byte_def form_safe_def)
  note inst = pagination_concatenates_pages [where client = paged_api and log = "[]"
      and replies = "script three_pages" and pages = three_pages
      and hit_replies = "script three_pages" and hit_pages = three_pages
      and workspace = "''acme''" and projectKey = "''PK''" and query = "''class Foo''"]
  have "getRepositoriesByProject paged_api ''acme'' ''PK'' None [] =
        Some (Inr [''api'', ''web'', ''docs'', ''infra'', ''tools''],
              [get_request ''repositories/acme?q=project.key=\"PK\"'',
               get_request ''repositories/acme?q=project.key=\"PK\"&page=2'',
               get_request ''repositories/acme?q=project.key=\"PK\"&page=3''])"
    using inst repos pages safe by (simp add: three_pages_values three_pages_urls)
  moreover have "codeSearch paged_api ''acme'' ''class Foo'' None [] =
        Some (Inr [''api'', ''web'', ''docs'', ''infra'', ''tools''],
              [get_request ''workspaces/acme/search/code?search_query=class+Foo&fields=%2Bvalues.file.commit.repository'',
               get_request ''workspaces/acme/search/code?search_query=class+Foo&fields=%2Bvalues.file.commit.repository&page=2'',
               get_request ''workspaces/acme/search/code?search_query=class+Foo&fields=%2Bvalues.file.commit.repository&page=3''])"
    using inst search pages safe by (simp add: three_pages_values three_pages_urls query)
  ultimately show ?thesis
    using repos search pages safe by blast
qed

text \<open>
  The counterexample to C1 as stated: the server holds two pages of repositories, the
  first with a \<open>next\<close> link and the \<open>page\<close> field \<open>-1\<close>. Both methods return the
  concatenation of the two pages, but the second request carries no page parameter: it
  is the first request again, not the request with \<open>&page=0\<close> that "the previous
  response's page field plus 1" asks for.
\<close>

theorem pagination_zero_page_counterexample:
  "get_repositories minus_api = replay (script minus_pages)
   \<and> get_search_code minus_api = replay (script minus_pages)
   \<and> script minus_pages 0 = Inr (minus_pages ! 0)
   \<and> script minus_pages 1 = Inr (minus_pages ! 1)
   \<and> length minus_pages = 2
   \<and> truthy_string (next (minus_pages ! 0))
   \<and> next (minus_pages ! 1) = None
   \<and> page (minus_pages ! 0) + 1 = 0
   \<and> getRepositoriesByProject minus_api ''acme'' ''PK'' None [] =
        Some (Inr [''api'', ''web''],
              [get_request ''repositories/acme?q=project.key=\"PK\"'',
               get_request ''repositories/acme?q=project.key=\"PK\"''])
   \<and> page_urls ''repositories/acme?q=project.key=\"PK\"'' minus_pages =
        [''repositories/acme?q=project.key=\"PK\"'', ''repositories/acme?q=project.key=\"PK\"&page=0'']
   \<and> codeSearch minus_api ''acme'' ''class Foo'' None [] =
        Some (Inr [''api'', ''web''],
              [get_request ''workspaces/acme/search/code?search_query=class+Foo&fields=%2Bvalues.file.commit.repository'',
               get_request ''workspaces/acme/search/code?search_query=class+Foo&fields=%2Bvalues.file.commit.repository''])
   \<and> page_urls ''workspaces/acme/search/code?search_query=class+Foo&fields=%2Bvalues.file.commit.repository''
         minus_pages =
        [''workspaces/acme/search/code?search_query=class+Foo&fields=%2Bvalues.file.commit.repository'',
         ''workspaces/acme/search/code?search_query=class+Foo&fields=%2Bvalues.file.commit.repository&page=0'']
   \<and> getRepositoriesByProject minus_api ''acme'' ''PK'' None [] \<noteq>
        Some (Inr (concat (map values minus_pages)),
              map get_request (page_urls ''repositories/acme?q=project.key=\"PK\"'' minus_pages))
   \<and> codeSearch minus_api ''acme'' ''class Foo'' None [] \<noteq>
        Some (Inr (concat (map values minus_pages)),
              map get_request
                (page_urls ''workspaces/acme/search/code?search_query=class+Foo&fields=%2Bvalues.file.commit.repository''
                   minus_pages))"
proof -
  have repos: "get_repositories minus_api = replay (script minus_pages)"
    and search: "get_search_code minus_api = replay (script minus_pages)"
    by (simp_all add: minus_api_def)
  have replies: "\<forall>i<length minus_pages. script minus_pages (length ([] :: request list) + i) = Inr (minus_pages ! i)"
    by (simp add: script_def)
  have links: "\<forall>res\<in>set (butlast minus_pages). truthy_string (next res)"
    "\<not> truthy_string (next (last minus_pages))" "minus_pages \<noteq> []"
    by (simp_all add: minus_pages_def)
  have facts: "script minus_pages 0 = Inr (minus_pages ! 0)" "script minus_pages 1 = Inr (minus_pages ! 1)"
    "length minus_pages = 2" "truthy_string (next (minus_pages ! 0))" "next (minus_pages ! 1) = None"
    "page (minus_pages ! 0) + 1 = 0"
    by (simp_all add: script_def minus_pages_def)
  have zero: "repositories_request ''acme'' ''PK'' (Some 0) = get_request ''repositories/acme?q=project.key=\"PK\"''"
    "code_search_request ''acme'' ''class Foo'' (Some 0) = get_request
       ''workspaces/acme/search/code?search_query=class+Foo&fields=%2Bvalues.file.commit.repository''"
    by (simp_all add: repositories_request_def code_search_request_def get_request_def
        URLSearchParams_toString_def form_encode_def form_encode_byte_def form_safe_def hex_digit_def)
  have first: "repositories_request ''acme'' ''PK'' None = get_request ''repositories/acme?q=project.key=\"PK\"''"
    "code_search_request ''acme'' ''class Foo'' None = get_request
       ''workspaces/acme/search/code?search_query=class+Foo&fields=%2Bvalues.file.commit.repository''"
    by (simp_all add: repositories_request_def code_search_request_def get_request_def
        URLSearchParams_toString_def form_encode_def form_encode_byte_def form_safe_def hex_digit_def)
  have run: "getRepositoriesByProject minus_api ''acme'' ''PK'' None [] =
        Some (Inr [''api'', ''web''],
              [get_request ''repositories/acme?q=project.key=\"PK\"'',
               get_request ''repositories/acme?q=project.key=\"PK\"''])"
    using getRepositoriesByProject_pages [OF repos links(3) replies links(1,2),
        of "''acme''" "''PK''" None]
    by (simp add: first) (simp add: minus_pages_def zero)
  have search_run: "codeSearch minus_api ''acme'' ''class Foo'' None [] =
        Some (Inr [''api'', ''web''],
              [get_request ''workspaces/acme/search/code?search_query=class+Foo&fields=%2Bvalues.file.commit.repository'',
               get_request ''workspaces/acme/search/code?search_query=class+Foo&fields=%2Bvalues.file.commit.repository''])"
    using codeSearch_pages [OF search links(3) replies links(1,2), of "''acme''" "''class Foo''" None]
    by (simp add: first) (simp add: minus_pages_def zero)
  have urls: "page_urls first_url minus_pages = [first_url, first_url @ ''&page=0'']" for first_url
    by (simp add: page_urls_def minus_pages_def show_number_def show_nat.simps digit_char_def)
  have "getRepositoriesByProject minus_api ''acme'' ''PK'' None [] \<noteq>
        Some (Inr (concat (map values minus_pages)),
              map get_request (page_urls ''repositories/acme?q=project.key=\"PK\"'' minus_pages))"
    by (simp add: run urls get_request_def)
  moreover have "codeSearch minus_api ''acme'' ''class Foo'' None [] \<noteq>
        Some (Inr (concat (map values minus_pages)),
              map get_request
                (page_urls ''workspaces/acme/search/code?search_query=class+Foo&fields=%2Bvalues.file.commit.repository''
                   minus_pages))"
    by (simp add: search_run urls get_request_def)
  ultimately show ?thesis
    using repos search facts run search_run urls [of "''repositories/acme?q=project.key=\"PK\"''"]
      urls [of "''workspaces/acme/search/code?search_query=class+Foo&fields=%2Bvalues.file.commit.repository''"]
    by simp
qed

text \<open>
  C2. When the reply to the request of \<open>getRepositoriesByProject\<close> or of \<open>codeSearch\<close> has
  no \<open>next\<close> field, the method returns that reply's \<open>values\<close> unchanged and has issued
  that one request and no other. When a mocked endpoint plays a sequence of replies in
  which some reply, at or after the current position, is a page without \<open>next\<close> field,
  the method returns, whatever the replies before that page are.
\<close>

theorem pagination_stops_without_next:
  "(get_repositories client log (repositories_request workspace projectKey requestPage) = Inr res
      \<and> next res = None
      \<longrightarrow> getRepositoriesByProject client workspace projectKey requestPage log =
            Some (Inr (values res), log @ [repositories_request workspace projectKey requestPage]))
   \<and> (get_search_code client log (code_search_request workspace query requestPage) = Inr hits
      \<and> next hits = None
      \<longrightarrow> codeSearch client workspace query requestPage log =
            Some (Inr (values hits), log @ [code_search_request workspace query requestPage]))
   \<and> (get_repositories client = replay replies \<and> replies (length log + n) = Inr res
      \<and> next res = None
      \<longrightarrow> (\<exists>r. getRepositoriesByProject client workspace projectKey requestPage log = Some r))
   \<and> (get_search_code client = replay hit_replies \<and> hit_replies (length log + n) = Inr hits
      \<and> next hits = None
      \<longrightarrow> (\<exists>r. codeSearch client workspace query requestPage log = Some r))"
proof (intro conjI impI; elim conjE)
  assume "get_repositories client log (repositories_request workspace projectKey requestPage) = Inr res"
    and "next res = None"
  then show "getRepositoriesByProject client workspace projectKey requestPage log =
      Some (Inr (values res), log @ [repositories_request workspace projectKey requestPage])"
    by (simp add: getRepositoriesByProject_last_page)
next
  assume "get_search_code client log (code_search_request workspace query requestPage) = Inr hits"
    and "next hits = None"
  then show "codeSearch client workspace query requestPage log =
      Some (Inr (values hits), log @ [code_search_request workspace query requestPage])"
    by (simp add: codeSearch_last_page)
next
  assume "get_repositories client = replay replies" and "replies (length log + n) = Inr res"
    and "next res = None"
  then show "\<exists>r. getRepositoriesByProject client workspace projectKey requestPage log = Some r"
    using getRepositoriesByProject_returns [of client replies log n res] by simp
next
  assume "get_search_code client = replay hit_replies" and "hit_replies (length log + n) = Inr hits"
    and "next hits = None"
  then show "\<exists>r. codeSearch client workspace query requestPage log = Some r"
    using codeSearch_returns [of client hit_replies log n hits] by simp
qed

theorem pagination_stops_without_next_witness:
  "get_repositories paged_api
      [get_request ''repositories/acme?q=project.key=\"PK\"'',
       get_request ''repositories/acme?q=project.key=\"PK\"&page=2'']
      (repositories_request ''acme'' ''PK'' (Some 3)) = Inr (three_pages ! 2)
   \<and> next (three_pages ! 2) = None
   \<and> getRepositoriesByProject paged_api ''acme'' ''PK'' (Some 3)
        [get_request ''repositories/acme?q=project.key=\"PK\"'',
         get_request ''repositories/acme?q=project.key=\"PK\"&page=2'']
       = Some (Inr [''tools''],
               [get_request ''repositories/acme?q=project.key=\"PK\"'',
                get_request ''repositories/acme?q=project.key=\"PK\"&page=2'',
                get_request ''repositories/acme?q=project.key=\"PK\"&page=3''])
   \<and> get_search_code paged_api [get_request ''a'', get_request ''b'']
        (code_search_request ''acme'' ''class Foo'' None) = Inr (three_pages ! 2)
   \<and> codeSearch paged_api ''acme'' ''class Foo'' None [get_request ''a'', get_request ''b'']
       = Some (Inr [''tools''],
               [get_request ''a'', get_request ''b'',
                get_request ''workspaces/acme/search/code?search_query=class+Foo&fields=%2Bvalues.file.commit.repository''])
   \<and> get_repositories paged_api = replay (script three_pages)
   \<and> get_search_code paged_api = replay (script three_pages)
   \<and> script three_pages (length ([] :: request list) + 2) = Inr (three_pages ! 2)
   \<and> (\<exists>r. getRepositoriesByProject paged_api ''acme'' ''PK'' None [] = Some r)
   \<and> (\<exists>r. codeSearch paged_api ''acme'' ''class Foo'' None [] = Some r)"
proof -
  let ?q1 = "get_request ''repositories/acme?q=project.key=\"PK\"''"
  let ?q2 = "get_request ''repositories/acme?q=project.key=\"PK\"&page=2''"
  have repos: "get_repositories paged_api = replay (script three_pages)"
    and search: "get_search_code paged_api = replay (script three_pages)"
    by (simp_all add: paged_api_def)
  have third: "script three_pages (length ([] :: request list) + 2) = Inr (three_pages ! 2)"
    by (simp add: script_def three_pages_def)
  have last_page: "next (three_pages ! 2) = None" and tools: "values (three_pages ! 2) = [''tools'']"
    by (simp_all add: three_pages_def)
  have r3: "get_repositories paged_api [?q1, ?q2] (repositories_request ''acme'' ''PK'' (Some 3))
      = Inr (three_pages ! 2)"
    and s3: "get_search_code paged_api [get_request ''a'', get_request ''b'']
        (code_search_request ''acme'' ''class Foo'' None) = Inr (three_pages ! 2)"
    by (simp_all add: repos search replay_def script_def three_pages_def)
  have req3: "repositories_request ''acme'' ''PK'' (Some 3)
      = get_request ''repositories/acme?q=project.key=\"PK\"&page=3''"
    by (simp add: repositories_request_page show_number_def show_nat.simps digit_char_def)
  have search1: "code_search_request ''acme'' ''class Foo'' None
      = get_request ''workspaces/acme/search/code?search_query=class+Foo&fields=%2Bvalues.file.commit.repository''"
    by (simp add: code_search_request_first form_encode_def form_encode_byte_def form_safe_def)
  have "getRepositoriesByProject paged_api ''acme'' ''PK'' (Some 3) [?q1, ?q2]
       = Some (Inr [''tools''], [?q1, ?q2, get_request ''repositories/acme?q=project.key=\"PK\"&page=3''])"
    using pagination_stops_without_next [where client = paged_api and log = "[?q1, ?q2]"
        and workspace = "''acme''" and projectKey = "''PK''" and requestPage = "Some 3"
        and res = "three_pages ! 2"] r3 last_page
    by (simp add: tools req3)
  moreover have "codeSearch paged_api ''acme'' ''class Foo'' None [get_request ''a'', get_request ''b'']
       = Some (Inr [''tools''],
               [get_request ''a'', get_request ''b'',
                get_request ''workspaces/acme/search/code?search_query=class+Foo&fields=%2Bvalues.file.commit.repository''])"
    using pagination_stops_without_next [where client = paged_api
        and log = "[get_request ''a'', get_request ''b'']"
        and workspace = "''acme''" and query = "''class Foo''" and requestPage = None
        and hits = "three_pages ! 2"] s3 last_page
    by (simp add: tools search1)
  moreover have "\<exists>r. getRepositoriesByProject paged_api ''acme'' ''PK'' None [] = Some r"
    using pagination_stops_without_next [where client = paged_api and log = "[]" and n = 2
        and replies = "script three_pages" and res = "three_pages ! 2"] repos third last_page
    by blast
  moreover have "\<exists>r. codeSearch paged_api ''acme'' ''class Foo'' None [] = Some r"
    using pagination_stops_without_next [where client = paged_api and log = "[]" and n = 2
        and hit_replies = "script three_pages" and hits = "three_pages ! 2"] search third last_page
    by blast
  ultimately show ?thesis
    using repos search third last_page r3 s3 by blast
qed

end
